theory Spec2Isabelle
  imports Main
begin

section \<open>The process: argument vector in, two streams and an exit code out\<close>

text \<open>
  The program \<^verbatim>\<open>src/index.ts\<close> is a single script: it reads the version from the package
  metadata, answers the token \<^verbatim>\<open>--version\<close> by itself, and hands every other argument vector
  to a command-line parser object that it configures with one chain of calls (lines 41 to
  200) and runs with \<^verbatim>\<open>cli.parse()\<close>.  What a run can be observed to do is what the test file
  \<^verbatim>\<open>src/index.test.ts\<close> reads back from the child process: the text on standard output, the
  text on standard error, and the exit code.  A stream is the list of the lines written to
  it, in order.
\<close>

record outcome =
  stdout :: "string list"
  stderr :: "string list"
  exitCode :: int

text \<open>
  What the surroundings of a run supply.  \<open>pkgVersion\<close> is the \<^verbatim>\<open>version\<close> field of
  \<^verbatim>\<open>./package.json\<close>, a string, as the test file reads it at its line 6 (\<^verbatim>\<open>PKG_VERSION\<close>).
  \<open>numberToString\<close> is the text JavaScript gives to \<^verbatim>\<open>Number(x)\<close> for a decimal literal \<open>x\<close> (the
  literal itself when its integer part is no safe integer): rounding to a double and printing
  the shortest digits that read back is the engine's business.  \<open>y18n\<close> is the locale of the
  environment: the parser package looks up every text of its own (messages, headings of the
  help) in the table of the locale named by \<^verbatim>\<open>LC_ALL\<close>, \<^verbatim>\<open>LC_MESSAGES\<close>, \<^verbatim>\<open>LANG\<close> or \<^verbatim>\<open>LANGUAGE\<close>,
  and keeps the English text where the table has no entry; the function gives the text found
  for an English one.  \<open>report\<close> is what the interpreter writes to standard error for an
  exception that nothing catches, before it ends the process with code 1.
\<close>

datatype exception = ReadError | TypeError

record runtime =
  pkgVersion :: string
  numberToString :: "string \<Rightarrow> string"
  y18n :: "string \<Rightarrow> string"
  report :: "exception \<Rightarrow> string list"

text \<open>
  The script runs under bun (line 1; the tests start it with \<^verbatim>\<open>process.execPath\<close>).
  \<^verbatim>\<open>console.log\<close> writes its text and ends the line.  So does \<^verbatim>\<open>console.error\<close>, on standard
  error, when it has an argument; called with none, it writes the empty line to standard
  output.  A text of several lines is given here as the list of its lines.
\<close>

definition console_log :: "string list \<Rightarrow> outcome \<Rightarrow> outcome" where
  "console_log text out = out\<lparr>stdout := stdout out @ text\<rparr>"

definition console_error :: "string list option \<Rightarrow> outcome \<Rightarrow> outcome" where
  "console_error text out =
     (case text of
        None \<Rightarrow> out\<lparr>stdout := stdout out @ [[]]\<rparr>
      | Some ls \<Rightarrow> out\<lparr>stderr := stderr out @ ls\<rparr>)"

definition process_exit :: "int \<Rightarrow> outcome \<Rightarrow> outcome" where
  "process_exit n out = out\<lparr>exitCode := n\<rparr>"

definition started :: outcome where
  "started = \<lparr>stdout = [], stderr = [], exitCode = 0\<rparr>"

definition uncaught :: "runtime \<Rightarrow> exception \<Rightarrow> outcome \<Rightarrow> outcome" where
  "uncaught rt e out = process_exit 1 (out\<lparr>stderr := stderr out @ report rt e\<rparr>)"

text \<open>
  What a command handler does.  Every handler of the script writes with \<^verbatim>\<open>console.log\<close>; the
  default handler of the variant in \<^verbatim>\<open>src/unnamed/part_000\<close> (lines 37 to 40) also calls
  \<^verbatim>\<open>cli.showHelp()\<close> on the parser object it is registered with.  A handler throws when the
  text it builds asks for the text of a value that has none.
\<close>

datatype effect = Log string | ShowHelp | Throw

subsection \<open>Values and texts of the language\<close>

text \<open>
  The values the parser stores under a key.  A number is kept as the text it prints as,
  which is all the script ever does with it; an object (made by a dotted key) is the list of
  its own properties.
\<close>

datatype jsvalue =
    Str string
  | Num string
  | Bool bool
  | Arr "jsvalue list"
  | Obj "(string \<times> jsvalue) list"

text \<open>\<^verbatim>\<open>Array.prototype.join\<close>.\<close>

fun join :: "string \<Rightarrow> string list \<Rightarrow> string" where
  "join sep [] = []"
| "join sep [x] = x"
| "join sep (x # y # ys) = x @ sep @ join sep (y # ys)"

text \<open>
  The text of a value, as a template literal or \<^verbatim>\<open>join\<close> asks for it.  An array gives the
  texts of its elements with commas between.  An object gives \<^verbatim>\<open>[object Object]\<close>, unless it
  has a property \<^verbatim>\<open>toString\<close> of its own: the parser stores no function, so the conversion
  finds nothing to call and throws a \<^verbatim>\<open>TypeError\<close>, which is the result \<open>None\<close> here.
\<close>

fun toString :: "jsvalue \<Rightarrow> string option" where
  "toString (Str s) = Some s"
| "toString (Num n) = Some n"
| "toString (Bool b) = Some (if b then ''true'' else ''false'')"
| "toString (Arr vs) = map_option (join '','') (those (map toString vs))"
| "toString (Obj ps) = (if ''toString'' \<in> set (map fst ps) then None else Some ''[object Object]'')"

text \<open>A template literal prints an absent value as \<^verbatim>\<open>undefined\<close>.\<close>

definition template :: "jsvalue option \<Rightarrow> string option" where
  "template v = (case v of None \<Rightarrow> Some ''undefined'' | Some x \<Rightarrow> toString x)"

fun truthy :: "jsvalue \<Rightarrow> bool" where
  "truthy (Str s) = (s \<noteq> [])"
| "truthy (Num n) = (n \<noteq> ''0'' \<and> n \<noteq> ''NaN'')"
| "truthy (Bool b) = b"
| "truthy (Arr vs) = True"
| "truthy (Obj ps) = True"

text \<open>The decimal text of a natural number (\<open>digit\<close> is only asked for \<open>d < 10\<close>).\<close>

definition digit :: "nat \<Rightarrow> char" where
  "digit d = ''0123456789'' ! d"

fun toDecimal :: "nat \<Rightarrow> string" where
  "toDecimal n = (if n < 10 then [digit n] else toDecimal (n div 10) @ [digit (n mod 10)])"

declare toDecimal.simps [simp del]

text \<open>
  Characters.  An argument is the list of its bytes (UTF-8); the classes below are those of
  the regular expressions the parser uses, which for an argument within ASCII are exact.
\<close>

definition code :: "char \<Rightarrow> nat" where
  "code c = of_char c"

definition is_digit :: "char \<Rightarrow> bool" where
  "is_digit c = (48 \<le> code c \<and> code c \<le> 57)"

definition is_upper :: "char \<Rightarrow> bool" where
  "is_upper c = (65 \<le> code c \<and> code c \<le> 90)"

definition is_lower :: "char \<Rightarrow> bool" where
  "is_lower c = (97 \<le> code c \<and> code c \<le> 122)"

definition is_letter :: "char \<Rightarrow> bool" where
  "is_letter c = (is_upper c \<or> is_lower c)"

text \<open>\<^verbatim>\<open>\w\<close>.\<close>

definition is_word :: "char \<Rightarrow> bool" where
  "is_word c = (is_letter c \<or> is_digit c \<or> c = CHR ''_'')"

definition toLowerCase :: "char \<Rightarrow> char" where
  "toLowerCase c = (if is_upper c then ''abcdefghijklmnopqrstuvwxyz'' ! (code c - 65) else c)"

definition toUpperCase :: "char \<Rightarrow> char" where
  "toUpperCase c = (if is_lower c then ''ABCDEFGHIJKLMNOPQRSTUVWXYZ'' ! (code c - 97) else c)"

text \<open>
  The dot of a regular expression matches every character but a line terminator (line feed,
  carriage return, U+2028, U+2029); \<open>dots\<close> is the longest run a \<^verbatim>\<open>.+\<close> can take.
\<close>

definition line_terminator :: "string \<Rightarrow> bool" where
  "line_terminator s =
     (case s of
        [] \<Rightarrow> False
      | c # r \<Rightarrow>
          code c = 10 \<or> code c = 13 \<or>
          (code c = 0xE2 \<and>
           (case r of d # e # _ \<Rightarrow> code d = 0x80 \<and> (code e = 0xA8 \<or> code e = 0xA9)
            | _ \<Rightarrow> False)))"

fun dots :: "string \<Rightarrow> string" where
  "dots [] = []"
| "dots (c # r) = (if line_terminator (c # r) then [] else c # dots r)"

fun split_on :: "char \<Rightarrow> string \<Rightarrow> string list" where
  "split_on c [] = [[]]"
| "split_on c (x # xs) =
     (if x = c then [] # split_on c xs
      else (case split_on c xs of [] \<Rightarrow> [[x]] | w # ws \<Rightarrow> (x # w) # ws))"

definition starts_with :: "string \<Rightarrow> string \<Rightarrow> bool" where
  "starts_with p s = (take (length p) s = p)"


section \<open>The tokeniser\<close>

text \<open>
  The parser object is the \<^verbatim>\<open>yargs\<close> package (imported at lines 10 and 11) and reads the
  arguments with its tokeniser, \<^verbatim>\<open>yargs-parser\<close>.  Both are dependencies of the repository and
  their code is not part of it; the script only configures them.  This section and the
  next two write down what the packages do with the configuration of the script, keeping
  the names of their functions, and agree with every case of \<^verbatim>\<open>src/index.test.ts\<close>.

  The tokeniser is told the type of the declared keys (boolean, string, array), their
  aliases and, when it reads positionals back, their defaults.  While it reads, it adds an
  alias in camel case for every key with a hyphen that it meets.
\<close>

record flags =
  fl_bools :: "string list"
  fl_strings :: "string list"
  fl_arrays :: "string list"
  fl_aliases :: "(string \<times> string list) list"
  fl_newAliases :: "string list"
  fl_defaults :: "(string \<times> jsvalue) list"

text \<open>
  What has been read so far: the keys set, in the order in which they were first set; the
  positionals (the key \<^verbatim>\<open>_\<close>); what followed the token \<^verbatim>\<open>--\<close>; and the flags, for the aliases
  added on the way.
\<close>

record parsing =
  p_argv :: "(string \<times> jsvalue) list"
  p_positional :: "string list"
  p_notFlags :: "string list"
  p_flags :: flags

fun put :: "'k \<Rightarrow> 'v \<Rightarrow> ('k \<times> 'v) list \<Rightarrow> ('k \<times> 'v) list" where
  "put k v [] = [(k, v)]"
| "put k v ((k', v') # xs) = (if k' = k then (k, v) # xs else (k', v') # put k v xs)"

definition aliases_of :: "flags \<Rightarrow> string \<Rightarrow> string list" where
  "aliases_of f k = (case map_of (fl_aliases f) k of None \<Rightarrow> [] | Some as \<Rightarrow> as)"

definition checkAllAliases :: "flags \<Rightarrow> string \<Rightarrow> string list \<Rightarrow> bool" where
  "checkAllAliases f k flag = list_ex (\<lambda>x. x \<in> set flag) (aliases_of f k @ [k])"

subsection \<open>Camel case\<close>

fun camel_chars :: "bool \<Rightarrow> bool \<Rightarrow> string \<Rightarrow> string" where
  "camel_chars up first [] = []"
| "camel_chars up first (c # cs) =
     (let chr = (if up then toUpperCase c else c)
      in if \<not> first \<and> (chr = CHR ''-'' \<or> chr = CHR ''_'') then camel_chars True False cs
         else if chr \<noteq> CHR ''-'' \<and> chr \<noteq> CHR ''_'' then chr # camel_chars False False cs
         else camel_chars False False cs)"

definition camelCase :: "string \<Rightarrow> string" where
  "camelCase s =
     (let str = (if s \<noteq> map toLowerCase s \<and> s \<noteq> map toUpperCase s then s
                 else map toLowerCase s)
      in if CHR ''-'' \<notin> set str \<and> CHR ''_'' \<notin> set str then str
         else (let k = length (takeWhile (\<lambda>c. c = CHR ''-'') str)
               in camel_chars False (k = 0) (drop k str)))"

definition addAlias :: "string \<Rightarrow> string \<Rightarrow> flags \<Rightarrow> flags" where
  "addAlias key alias f =
     (if aliases_of f key = []
      then f\<lparr>fl_aliases := put key [alias] (fl_aliases f),
             fl_newAliases := fl_newAliases f @ [alias]\<rparr>
      else f)"

definition addNewAlias :: "string \<Rightarrow> string \<Rightarrow> flags \<Rightarrow> flags" where
  "addNewAlias key alias f =
     (let f1 = addAlias key alias f
      in if aliases_of f1 alias = [] then addAlias alias key f1 else f1)"

subsection \<open>Values that look like numbers\<close>

definition hex_digit :: "char \<Rightarrow> nat option" where
  "hex_digit c =
     (let n = code c
      in if 48 \<le> n \<and> n \<le> 57 then Some (n - 48)
         else if 97 \<le> n \<and> n \<le> 102 then Some (n - 87)
         else if 65 \<le> n \<and> n \<le> 70 then Some (n - 55)
         else None)"

fun hex_value :: "nat \<Rightarrow> string \<Rightarrow> nat option" where
  "hex_value acc [] = Some acc"
| "hex_value acc (c # cs) =
     (case hex_digit c of None \<Rightarrow> None | Some d \<Rightarrow> hex_value (16 * acc + d) cs)"

text \<open>\<^verbatim>\<open>/^0x[0-9a-f]+$/i\<close>, with the value of the digits.\<close>

definition hex_literal :: "string \<Rightarrow> nat option" where
  "hex_literal s =
     (case s of
        c0 # c1 # d # ds \<Rightarrow>
          if c0 = CHR ''0'' \<and> (c1 = CHR ''x'' \<or> c1 = CHR ''X'') then hex_value 0 (d # ds)
          else None
      | _ \<Rightarrow> None)"

text \<open>\<^verbatim>\<open>/^0[^.]/\<close>.\<close>

definition leading_zero :: "string \<Rightarrow> bool" where
  "leading_zero s = (case s of c0 # c1 # _ \<Rightarrow> c0 = CHR ''0'' \<and> c1 \<noteq> CHR ''.'' | _ \<Rightarrow> False)"

text \<open>The tail \<^verbatim>\<open>(e[-+]?\d+)?$\<close> of the decimal pattern.\<close>

definition exponent_tail :: "string \<Rightarrow> bool" where
  "exponent_tail s =
     (case s of
        [] \<Rightarrow> True
      | c # r \<Rightarrow>
          c = CHR ''e'' \<and>
          (let ds = (case r of [] \<Rightarrow> []
                     | d # r' \<Rightarrow> if d = CHR ''-'' \<or> d = CHR ''+'' then r' else r)
           in ds \<noteq> [] \<and> list_all is_digit ds))"

text \<open>\<^verbatim>\<open>/^[-]?(?:\d+(?:\.\d*)?|\.\d+)(e[-+]?\d+)?$/\<close>.\<close>

definition decimal_literal :: "string \<Rightarrow> bool" where
  "decimal_literal s =
     (let u = (case s of [] \<Rightarrow> [] | c # r \<Rightarrow> if c = CHR ''-'' then r else s)
      in case u of
           [] \<Rightarrow> False
         | c # r \<Rightarrow>
             if is_digit c
             then (case dropWhile is_digit r of
                     [] \<Rightarrow> True
                   | d # b \<Rightarrow>
                       if d = CHR ''.'' then exponent_tail (dropWhile is_digit b)
                       else exponent_tail (d # b))
             else if c = CHR ''.''
             then (case r of [] \<Rightarrow> False
                   | d # b \<Rightarrow> is_digit d \<and> exponent_tail (dropWhile is_digit b))
             else False)"

definition looksLikeNumber :: "string \<Rightarrow> bool" where
  "looksLikeNumber x =
     (if hex_literal x \<noteq> None then True
      else if leading_zero x then False
      else decimal_literal x)"

text \<open>
  The value of a key that is declared neither a string nor a boolean is turned into a
  number when it looks like one and its integer part is a safe integer.  A hexadecimal
  literal always passes the second test, and below \<open>2\<^sup>5\<^sup>3\<close> its number is exact.  \<open>number\<close>
  is \<open>numberToString\<close> of the runtime, here and in all that reads arguments.
\<close>

definition toNumber :: "(string \<Rightarrow> string) \<Rightarrow> string \<Rightarrow> string" where
  "toNumber number x =
     (case hex_literal x of
        Some n \<Rightarrow> if n < 9007199254740992 then toDecimal n else number x
      | None \<Rightarrow> number x)"

definition maybeCoerceNumber :: "(string \<Rightarrow> string) \<Rightarrow> flags \<Rightarrow> string \<Rightarrow> jsvalue \<Rightarrow> jsvalue" where
  "maybeCoerceNumber number f key v =
     (if \<not> checkAllAliases f key (fl_strings f) \<and> \<not> checkAllAliases f key (fl_bools f)
      then (case v of Str x \<Rightarrow> if looksLikeNumber x then Num (toNumber number x) else v | _ \<Rightarrow> v)
      else v)"

text \<open>\<^verbatim>\<open>/^-([0-9]+(\.[0-9]+)?|\.[0-9]+)$/\<close>: a negative number is not an option.\<close>

definition negative :: "string \<Rightarrow> bool" where
  "negative s =
     (case s of
        [] \<Rightarrow> False
      | c # r \<Rightarrow>
          c = CHR ''-'' \<and>
          (case r of
             [] \<Rightarrow> False
           | d # b \<Rightarrow>
               if is_digit d
               then (case dropWhile is_digit b of
                       [] \<Rightarrow> True
                     | e # g \<Rightarrow> e = CHR ''.'' \<and> g \<noteq> [] \<and> list_all is_digit g)
               else d = CHR ''.'' \<and> b \<noteq> [] \<and> list_all is_digit b))"

text \<open>\<^verbatim>\<open>/^-?\d+(\.\d*)?(e-?\d+)?$/\<close>: the number that may follow a letter in a group.\<close>

definition short_exponent :: "string \<Rightarrow> bool" where
  "short_exponent s =
     (case s of
        [] \<Rightarrow> True
      | c # r \<Rightarrow>
          c = CHR ''e'' \<and>
          (let ds = (case r of [] \<Rightarrow> [] | d # r' \<Rightarrow> if d = CHR ''-'' then r' else r)
           in ds \<noteq> [] \<and> list_all is_digit ds))"

definition number_after_letter :: "string \<Rightarrow> bool" where
  "number_after_letter s =
     (let u = (case s of [] \<Rightarrow> [] | c # r \<Rightarrow> if c = CHR ''-'' then r else s)
      in case u of
           [] \<Rightarrow> False
         | c # r \<Rightarrow>
             is_digit c \<and>
             (case dropWhile is_digit r of
                [] \<Rightarrow> True
              | d # b \<Rightarrow>
                  if d = CHR ''.'' then short_exponent (dropWhile is_digit b)
                  else short_exponent (d # b)))"

subsection \<open>Setting a key\<close>

definition stripQuotes :: "string \<Rightarrow> string" where
  "stripQuotes val =
     (case val of
        [] \<Rightarrow> val
      | c # r \<Rightarrow>
          if (c = CHR 0x27 \<or> c = CHR 0x22) \<and> last val = c \<and> r \<noteq> [] then butlast r
          else val)"

definition processValue :: "(string \<Rightarrow> string) \<Rightarrow> flags \<Rightarrow> string \<Rightarrow> jsvalue \<Rightarrow> bool \<Rightarrow> jsvalue" where
  "processValue number f key val shouldStripQuotes =
     (let v1 = (case val of Str s \<Rightarrow> if shouldStripQuotes then Str (stripQuotes s) else val
                | _ \<Rightarrow> val);
          v2 = (if checkAllAliases f key (fl_bools f)
                then (case v1 of Str s \<Rightarrow> Bool (s = ''true'') | _ \<Rightarrow> v1)
                else v1)
      in case v2 of
           Arr vs \<Rightarrow> Arr (map (maybeCoerceNumber number f key) vs)
         | _ \<Rightarrow> maybeCoerceNumber number f key v2)"

definition sanitizeKey :: "string \<Rightarrow> string" where
  "sanitizeKey key = (if key = ''__proto__'' then ''___proto___'' else key)"

text \<open>
  \<^verbatim>\<open>setKey\<close>: a key is given as a path, the key cut at its dots.  The last name of the path
  is assigned in the object the names before it lead to; each of those that is missing
  becomes an empty object, and one that holds something else is turned into an array with a
  new object at its end.  A name that already has a value collects its values in an array,
  unless it is a boolean; a key declared an array always holds an array.
\<close>

definition assign :: "flags \<Rightarrow> string \<Rightarrow> string \<Rightarrow> jsvalue \<Rightarrow> jsvalue option \<Rightarrow> jsvalue" where
  "assign f path key val old =
     (case old of
        Some (Arr vs) \<Rightarrow>
          (case val of
             Arr ws \<Rightarrow>
               if checkAllAliases f path (fl_arrays f) then Arr (vs @ ws) else Arr (vs @ [val])
           | _ \<Rightarrow> Arr (vs @ [val]))
      | None \<Rightarrow>
          if checkAllAliases f path (fl_arrays f)
          then (case val of Arr ws \<Rightarrow> val | _ \<Rightarrow> Arr [val])
          else val
      | Some v \<Rightarrow> if checkAllAliases f key (fl_bools f) then val else Arr [v, val])"

fun setPath ::
  "flags \<Rightarrow> string \<Rightarrow> string list \<Rightarrow> jsvalue \<Rightarrow> (string \<times> jsvalue) list \<Rightarrow> (string \<times> jsvalue) list" where
  "setPath f path [] val obj = obj"
| "setPath f path [k] val obj =
     put (sanitizeKey k) (assign f path (sanitizeKey k) val (map_of obj (sanitizeKey k))) obj"
| "setPath f path (k # k' # ks) val obj =
     put (sanitizeKey k)
       (case map_of obj (sanitizeKey k) of
          None \<Rightarrow> Obj (setPath f path (k' # ks) val [])
        | Some (Obj ps) \<Rightarrow> Obj (setPath f path (k' # ks) val ps)
        | Some (Arr vs) \<Rightarrow> Arr (vs @ [Obj (setPath f path (k' # ks) val [])])
        | Some v \<Rightarrow> Arr [v, Obj (setPath f path (k' # ks) val [])])
       obj"

text \<open>
  The key \<^verbatim>\<open>_\<close> is the array of the positionals, which is kept apart here, as the texts of
  its elements; what a path beginning with \<^verbatim>\<open>_\<close> puts there is taken as an empty object.
\<close>

definition text_of :: "jsvalue \<Rightarrow> string" where
  "text_of v = (case toString v of None \<Rightarrow> ''[object Object]'' | Some s \<Rightarrow> s)"

definition setKey :: "string list \<Rightarrow> jsvalue \<Rightarrow> parsing \<Rightarrow> parsing" where
  "setKey keys val st =
     (if sanitizeKey (hd keys) = ''_''
      then st\<lparr>p_positional :=
                p_positional st @ [if 1 < length keys then text_of (Obj []) else text_of val]\<rparr>
      else st\<lparr>p_argv := setPath (p_flags st) (join ''.'' keys) keys val (p_argv st)\<rparr>)"

text \<open>
  \<^verbatim>\<open>setArg\<close>: the key, its aliases, and for a dotted key the same path under every alias of
  its first name.
\<close>

definition setArg :: "(string \<Rightarrow> string) \<Rightarrow> string \<Rightarrow> jsvalue \<Rightarrow> bool \<Rightarrow> parsing \<Rightarrow> parsing" where
  "setArg number key val shouldStripQuotes st =
     (let f = (if CHR ''-'' \<in> set key
               then addNewAlias key (join ''.'' (map camelCase (split_on CHR ''.'' key)))
                      (p_flags st)
               else p_flags st);
          st0 = st\<lparr>p_flags := f\<rparr>;
          value = processValue number f key val shouldStripQuotes;
          splitKey = split_on CHR ''.'' key;
          st1 = setKey splitKey value st0;
          st2 = fold (\<lambda>x. setKey (split_on CHR ''.'' x) value) (aliases_of f key) st1
      in if 1 < length splitKey
         then fold (\<lambda>x s. let keyProperties = split_on CHR ''.'' x @ tl splitKey
                           in if join ''.'' keyProperties \<in> set (aliases_of f key) then s
                              else setKey keyProperties value s)
                (aliases_of f (hd splitKey)) st2
         else st2)"

definition defaultValue :: "flags \<Rightarrow> string \<Rightarrow> jsvalue" where
  "defaultValue f key =
     (if checkAllAliases f key (fl_bools f) then Bool True
      else (case map_of (fl_defaults f) key of
              Some d \<Rightarrow> d
            | None \<Rightarrow>
                if checkAllAliases f key (fl_strings f) then Str []
                else if checkAllAliases f key (fl_arrays f) then Arr []
                else Bool True))"

subsection \<open>The values of an array key\<close>

text \<open>
  \<^verbatim>\<open>eatArray\<close>: a key declared an array takes the arguments that follow it up to the next
  option.  The number returned is the number of arguments taken.
\<close>

definition is_option :: "string \<Rightarrow> bool" where
  "is_option a = (starts_with ''-'' a \<and> \<not> negative a)"

definition eatArray ::
  "(string \<Rightarrow> string) \<Rightarrow> string \<Rightarrow> string list \<Rightarrow> string option \<Rightarrow> parsing \<Rightarrow> parsing \<times> nat" where
  "eatArray number key rest argAfterEqualSign st =
     (let f = p_flags st;
          next = (case argAfterEqualSign of
                    Some v \<Rightarrow> if v \<noteq> [] then Some v
                              else (case rest of [] \<Rightarrow> None | a # _ \<Rightarrow> Some a)
                  | None \<Rightarrow> (case rest of [] \<Rightarrow> None | a # _ \<Rightarrow> Some a));
          taken = takeWhile (\<lambda>a. \<not> is_option a) rest
      in if checkAllAliases f key (fl_bools f) \<and> next \<noteq> Some ''true'' \<and> next \<noteq> Some ''false''
         then (setArg number key (Arr [Bool True]) False st, 0)
         else if (case next of None \<Rightarrow> True
                  | Some n \<Rightarrow> argAfterEqualSign = None \<and> is_option n)
         then (setArg number key
                 (Arr (case map_of (fl_defaults f) key of
                         None \<Rightarrow> [] | Some (Arr ds) \<Rightarrow> ds | Some d \<Rightarrow> [d])) False st, 0)
         else (setArg number key
                 (Arr ((case argAfterEqualSign of
                          None \<Rightarrow> []
                        | Some v \<Rightarrow> [processValue number f key (Str v) True]) @
                       map (\<lambda>a. processValue number f key (Str a) False) taken)) False st,
               length taken))"

subsection \<open>One argument at a time\<close>

text \<open>
  The value of a key given as \<^verbatim>\<open>--key\<close>, or as the last letter of a group: the next
  argument, unless the key is a boolean or the next argument is an option; a boolean takes
  a following \<^verbatim>\<open>true\<close> or \<^verbatim>\<open>false\<close>.  \<open>blocks\<close> says which next arguments count as options.
\<close>

definition takeValue ::
  "(string \<Rightarrow> string) \<Rightarrow> (string \<Rightarrow> bool) \<Rightarrow> bool \<Rightarrow> string \<Rightarrow> string list \<Rightarrow> parsing \<Rightarrow> parsing \<times> nat" where
  "takeValue number blocks booleans key rest st =
     (let f = p_flags st
      in case rest of
           [] \<Rightarrow> (setArg number key (defaultValue f key) False st, 0)
         | next # _ \<Rightarrow>
             if (\<not> blocks next \<or> negative next) \<and> \<not> checkAllAliases f key (fl_bools f)
             then (setArg number key (Str next) False st, 1)
             else if booleans \<and> (next = ''true'' \<or> next = ''false'')
             then (setArg number key (Str next) False st, 1)
             else (setArg number key (defaultValue f key) False st, 0))"

text \<open>\<^verbatim>\<open>/^(-|--)[^-]/\<close>.\<close>

definition dashes_then_other :: "string \<Rightarrow> bool" where
  "dashes_then_other a =
     (case a of
        c # d # r \<Rightarrow>
          c = CHR ''-'' \<and> (d \<noteq> CHR ''-'' \<or> (case r of [] \<Rightarrow> False | e # _ \<Rightarrow> e \<noteq> CHR ''-''))
      | _ \<Rightarrow> False)"

text \<open>
  A group of short options, \<^verbatim>\<open>-abc\<close>: the letters but the last, from left to right.  The
  argument of \<open>group\<close> is what is left of the group, the current letter first.  The result
  tells whether the group was cut short, and how many of the following arguments were
  taken.
\<close>

fun group :: "(string \<Rightarrow> string) \<Rightarrow> string \<Rightarrow> string list \<Rightarrow> parsing \<Rightarrow> parsing \<times> bool \<times> nat" where
  "group number (c # d # ds) rest st =
     (let f = p_flags st
      in if ds \<noteq> [] \<and> d = CHR ''=''
         then (if checkAllAliases f [c] (fl_arrays f)
               then (case eatArray number [c] rest (Some ds) st of (st', n) \<Rightarrow> (st', True, n))
               else (setArg number [c] (Str ds) False st, True, 0))
         else if d # ds = ''-''
         then group number (d # ds) rest (setArg number [c] (Str ''-'') False st)
         else if is_letter c \<and> number_after_letter (d # ds) \<and>
                 \<not> checkAllAliases f (d # ds) (fl_bools f)
         then (setArg number [c] (Str (d # ds)) False st, True, 0)
         else if ds \<noteq> [] \<and> \<not> is_word d
         then (setArg number [c] (Str (d # ds)) False st, True, 0)
         else group number (d # ds) rest (setArg number [c] (defaultValue f [c]) False st))"
| "group number cs rest st = (st, False, 0)"

text \<open>
  One argument that is not \<^verbatim>\<open>--\<close>, with the arguments that follow it.  The cases are tried in
  this order: dashes alone (three or more) are a positional; \<^verbatim>\<open>--key=value\<close>; \<^verbatim>\<open>--no-key\<close>;
  \<^verbatim>\<open>--key\<close>; a dotted short key with a value after \<^verbatim>\<open>=\<close>; a dotted short key; a group of
  short options; a single digit that is a boolean; and anything else is a positional.
\<close>

definition dashes_alone :: "string \<Rightarrow> bool" where
  "dashes_alone a =
     (3 \<le> length (takeWhile (\<lambda>c. c = CHR ''-'') a) \<and>
      (case dropWhile (\<lambda>c. c = CHR ''-'') a of [] \<Rightarrow> True | c # _ \<Rightarrow> c = CHR ''=''))"

definition long_with_value :: "string \<Rightarrow> bool" where
  "long_with_value a = (starts_with ''--'' a \<and> CHR ''='' \<in> set (tl (dots (drop 2 a))))"

definition before_equals :: "string \<Rightarrow> string" where
  "before_equals s = takeWhile (\<lambda>c. c \<noteq> CHR ''='') s"

definition after_equals :: "string \<Rightarrow> string" where
  "after_equals s = tl (dropWhile (\<lambda>c. c \<noteq> CHR ''='') s)"

definition dotted_short :: "string \<Rightarrow> bool" where
  "dotted_short a =
     (case a of
        c # d # e # r \<Rightarrow>
          c = CHR ''-'' \<and> \<not> line_terminator (d # e # r) \<and> e = CHR ''.'' \<and> dots r \<noteq> []
      | _ \<Rightarrow> False)"

definition pushPositional :: "string \<Rightarrow> parsing \<Rightarrow> parsing" where
  "pushPositional a st = st\<lparr>p_positional := p_positional st @ [a]\<rparr>"

definition argument :: "(string \<Rightarrow> string) \<Rightarrow> string \<Rightarrow> string list \<Rightarrow> parsing \<Rightarrow> parsing \<times> nat" where
  "argument number arg rest st =
     (let f = p_flags st
      in if dashes_alone arg then (pushPositional arg st, 0)
         else if long_with_value arg
         then (let body = (if starts_with ''='' (drop 2 arg) then drop 1 arg else drop 2 arg);
                   key = before_equals body;
                   val = after_equals body
               in if checkAllAliases f key (fl_arrays f) then eatArray number key rest (Some val) st
                  else (setArg number key (Str val) True st, 0))
         else if starts_with ''--no-'' arg \<and> dots (drop 5 arg) \<noteq> []
         then (let key = dots (drop 5 arg)
               in (setArg number key
                     (if checkAllAliases f key (fl_arrays f) then Arr [Bool False] else Bool False)
                     False st, 0))
         else if starts_with ''--'' arg \<and> dots (drop 2 arg) \<noteq> []
         then (let key = dots (drop 2 arg)
               in if checkAllAliases f key (fl_arrays f) then eatArray number key rest None st
                  else takeValue number (starts_with ''-'') True key rest st)
         else if dotted_short arg \<and> CHR ''='' \<in> set (tl (dots (drop 3 arg)))
         then (setArg number (before_equals (drop 1 arg)) (Str (after_equals (drop 1 arg))) False st, 0)
         else if dotted_short arg \<and> \<not> negative arg
         then takeValue number (starts_with ''-'') False (take 2 (drop 1 arg) @ dots (drop 3 arg)) rest st
         else if starts_with ''-'' arg \<and> 1 < length arg \<and> arg ! 1 \<noteq> CHR ''-'' \<and> \<not> negative arg
         then (case group number (drop 1 arg) rest st of
                 (st', broken, n) \<Rightarrow>
                   if \<not> broken \<and> last arg \<noteq> CHR ''-''
                   then (if checkAllAliases (p_flags st') [last arg] (fl_arrays (p_flags st'))
                         then eatArray number [last arg] rest None st'
                         else takeValue number dashes_then_other True [last arg] rest st')
                   else (st', n))
         else if length arg = 2 \<and> starts_with ''-'' arg \<and> is_digit (arg ! 1) \<and>
                 checkAllAliases f (drop 1 arg) (fl_bools f)
         then (setArg number (drop 1 arg) (defaultValue f (drop 1 arg)) False st, 0)
         else (pushPositional arg st, 0))"

text \<open>
  The arguments from left to right.  The token \<^verbatim>\<open>--\<close> ends the options: what follows it is
  kept apart.
\<close>

function tokens :: "(string \<Rightarrow> string) \<Rightarrow> string list \<Rightarrow> parsing \<Rightarrow> parsing" where
  "tokens number [] st = st"
| "tokens number (arg # rest) st =
     (if arg = ''--'' then st\<lparr>p_notFlags := rest\<rparr>
      else tokens number (drop (snd (argument number arg rest st)) rest) (fst (argument number arg rest st)))"
  by pat_completeness auto

termination
  by (relation "measure (\<lambda>(number, as, st). length as)") auto

definition Parser :: "(string \<Rightarrow> string) \<Rightarrow> flags \<Rightarrow> string list \<Rightarrow> parsing" where
  "Parser number f args =
     tokens number args \<lparr>p_argv = [], p_positional = [], p_notFlags = [], p_flags = f\<rparr>"

section \<open>The command-line parser object\<close>

text \<open>
  The options object given to \<^verbatim>\<open>yargs.positional(key, {...})\<close>, to \<^verbatim>\<open>yargs.option(key, {...})\<close>
  or under a key of a builder object, and the declaration made with it.  A builder object
  declares options.
\<close>

datatype option_type = TypeString | TypeArray

record option_spec =
  os_describe :: string
  os_type :: option_type
  os_demandOption :: bool

datatype decl = DeclPositional string option_spec | DeclOption string option_spec

fun decl_key :: "decl \<Rightarrow> string" where
  "decl_key (DeclPositional k spec) = k"
| "decl_key (DeclOption k spec) = k"

fun decl_spec :: "decl \<Rightarrow> option_spec" where
  "decl_spec (DeclPositional k spec) = spec"
| "decl_spec (DeclOption k spec) = spec"

fun is_positional :: "decl \<Rightarrow> bool" where
  "is_positional (DeclPositional k spec) = True"
| "is_positional (DeclOption k spec) = False"

text \<open>
  The interface \<^verbatim>\<open>CLIArguments\<close> (lines 19 to 23): what a handler is given, the keys of the
  parsed arguments with their values.
\<close>

type_synonym CLIArguments = "(string \<times> jsvalue) list"

text \<open>
  One \<^verbatim>\<open>.command(...)\<close> registration: the command string, the description, what the builder
  declares, and the handler.
\<close>

record command_module =
  cm_command :: string
  cm_describe :: string
  cm_builder :: "decl list"
  cm_handler :: "CLIArguments \<Rightarrow> effect list"

text \<open>
  The object: the arguments it was made with, what the usage text shows (script name, usage
  line with the description under it, commands), the help and version options, the aliases,
  the declared keys, the registered commands, and the two checks.
\<close>

record yargs =
  y_processArgs :: "string list"
  y_scriptName :: string
  y_usage :: "(string \<times> string option) option"
  y_commands :: "command_module list"
  y_helpOpt :: "string option"
  y_versionOpt :: "(string \<times> string) option"
  y_aliases :: "(string \<times> string) list"
  y_options :: "decl list"
  y_handlers :: "command_module list"
  y_strict :: bool
  y_demandedCommands :: "(nat \<times> string) option"

text \<open>
  \<^verbatim>\<open>yargs(args)\<close>.  A fresh object knows the options \<^verbatim>\<open>help\<close> and \<^verbatim>\<open>version\<close>; its default
  version text is looked up by the package itself and is replaced at line 48 before anything
  is parsed, so the fresh object here carries none.
\<close>

definition yargs_new :: "string list \<Rightarrow> yargs" where
  "yargs_new args =
     \<lparr>y_processArgs = args, y_scriptName = ''$0'', y_usage = None, y_commands = [],
      y_helpOpt = Some ''help'', y_versionOpt = None, y_aliases = [], y_options = [],
      y_handlers = [], y_strict = False, y_demandedCommands = None\<rparr>"

definition yargs_scriptName :: "string \<Rightarrow> yargs \<Rightarrow> yargs" where
  "yargs_scriptName n y = y\<lparr>y_scriptName := n\<rparr>"

definition yargs_usage :: "string \<Rightarrow> yargs \<Rightarrow> yargs" where
  "yargs_usage u y = y\<lparr>y_usage := Some (u, None)\<rparr>"

definition yargs_help :: "yargs \<Rightarrow> yargs" where
  "yargs_help y = y\<lparr>y_helpOpt := Some ''help''\<rparr>"

definition yargs_alias :: "string \<Rightarrow> string \<Rightarrow> yargs \<Rightarrow> yargs" where
  "yargs_alias a k y = y\<lparr>y_aliases := y_aliases y @ [(a, k)]\<rparr>"

definition yargs_version :: "string \<Rightarrow> yargs \<Rightarrow> yargs" where
  "yargs_version v y = y\<lparr>y_versionOpt := Some (''version'', v)\<rparr>"

definition yargs_command :: "command_module \<Rightarrow> yargs \<Rightarrow> yargs" where
  "yargs_command m y = y\<lparr>y_handlers := y_handlers y @ [m], y_commands := y_commands y @ [m]\<rparr>"

definition yargs_strict :: "yargs \<Rightarrow> yargs" where
  "yargs_strict y = y\<lparr>y_strict := True\<rparr>"

definition yargs_demandCommand :: "nat \<Rightarrow> string \<Rightarrow> yargs \<Rightarrow> yargs" where
  "yargs_demandCommand n msg y = y\<lparr>y_demandedCommands := Some (n, msg)\<rparr>"

text \<open>A chain of calls \<^verbatim>\<open>obj.f().g()...\<close>, applied in the order written.\<close>

definition chain :: "'a \<Rightarrow> ('a \<Rightarrow> 'a) list \<Rightarrow> 'a" where
  "chain x fs = foldl (\<lambda>a f. f a) x fs"

subsection \<open>Command strings\<close>

text \<open>
  A command string such as \<^verbatim>\<open>add <component-name>\<close> or \<^verbatim>\<open>upgrade [components...]\<close> is cut at
  the blanks: the first word is the command's name, a word in angle brackets is a demanded
  positional, a word in square brackets an optional one, and dots before the closing bracket
  of the last word make it variadic.
\<close>

definition words_of :: "string \<Rightarrow> string list" where
  "words_of s = filter (\<lambda>w. w \<noteq> []) (split_on CHR '' '' s)"

definition is_bracket :: "char \<Rightarrow> bool" where
  "is_bracket c = (c = CHR ''['' \<or> c = CHR '']'' \<or> c = CHR ''<'' \<or> c = CHR ''>'')"

definition dots_then_bracket :: "string \<Rightarrow> bool" where
  "dots_then_bracket s =
     (case dropWhile (\<lambda>c. c = CHR ''.'') s of [] \<Rightarrow> False | c # _ \<Rightarrow> is_bracket c)"

fun strip_brackets :: "string \<Rightarrow> string" where
  "strip_brackets [] = []"
| "strip_brackets (c # cs) =
     (if is_bracket c then strip_brackets cs
      else if c = CHR ''.'' \<and> dots_then_bracket cs then strip_brackets cs
      else c # strip_brackets cs)"

fun dot_before_close :: "string \<Rightarrow> bool" where
  "dot_before_close (c # d # cs) =
     ((c = CHR ''.'' \<and> (d = CHR '']'' \<or> d = CHR ''>'')) \<or> dot_before_close (d # cs))"
| "dot_before_close _ = False"

record positional_spec =
  ps_name :: string
  ps_optional :: bool
  ps_variadic :: bool

record parsed_command =
  pc_cmd :: string
  pc_demanded :: "positional_spec list"
  pc_optional :: "positional_spec list"

definition positional_of :: "bool \<Rightarrow> string \<Rightarrow> positional_spec" where
  "positional_of is_last w =
     \<lparr>ps_name = strip_brackets w,
      ps_optional = (case w of [] \<Rightarrow> False | c # _ \<Rightarrow> c = CHR ''[''),
      ps_variadic = (dot_before_close w \<and> is_last)\<rparr>"

fun positionals_of :: "string list \<Rightarrow> positional_spec list" where
  "positionals_of [] = []"
| "positionals_of [w] = [positional_of True w]"
| "positionals_of (w # ws) = positional_of False w # positionals_of ws"

definition parseCommand :: "string \<Rightarrow> parsed_command" where
  "parseCommand s =
     (case words_of s of
        [] \<Rightarrow> \<lparr>pc_cmd = [], pc_demanded = [], pc_optional = []\<rparr>
      | w # ws \<Rightarrow>
          \<lparr>pc_cmd = strip_brackets w,
           pc_demanded = filter (\<lambda>p. \<not> ps_optional p) (positionals_of ws),
           pc_optional = filter ps_optional (positionals_of ws)\<rparr>)"

definition command_name :: "command_module \<Rightarrow> string" where
  "command_name m = pc_cmd (parseCommand (cm_command m))"

text \<open>The default command is the one registered under \<^verbatim>\<open>$0\<close>.\<close>

definition is_default :: "command_module \<Rightarrow> bool" where
  "is_default m = (command_name m = ''$0'')"

subsection \<open>What the tokeniser is told\<close>

text \<open>
  The keys the object declares: the help and version options, which are booleans, and the
  keys of the builder.  The aliases of a key are those given with \<^verbatim>\<open>.alias\<close>, in either
  direction, and the camel-case form of every name with a hyphen, which counts as new.  (No
  name declared by the script has a capital letter; the hyphenated form the tokeniser adds
  for such a name is left out.)
\<close>

definition special_keys :: "yargs \<Rightarrow> string list" where
  "special_keys y =
     (case y_helpOpt y of None \<Rightarrow> [] | Some h \<Rightarrow> [h]) @
     (case y_versionOpt y of None \<Rightarrow> [] | Some (k, v) \<Rightarrow> [k])"

definition declared_keys :: "yargs \<Rightarrow> string list" where
  "declared_keys y = special_keys y @ map decl_key (y_options y)"

definition given_aliases :: "yargs \<Rightarrow> string \<Rightarrow> string list" where
  "given_aliases y k =
     map fst (filter (\<lambda>(a, k'). k' = k) (y_aliases y)) @
     map snd (filter (\<lambda>(a, k'). a = k) (y_aliases y))"

definition camel_aliases :: "yargs \<Rightarrow> string \<Rightarrow> string list" where
  "camel_aliases y k =
     remdups (filter (\<lambda>c. c \<noteq> k \<and> c \<notin> set (given_aliases y k))
                (map camelCase (filter (\<lambda>x. CHR ''-'' \<in> set x) (given_aliases y k @ [k]))))"

definition key_aliases :: "yargs \<Rightarrow> string \<Rightarrow> string list" where
  "key_aliases y k = given_aliases y k @ camel_aliases y k"

definition extendAliases :: "yargs \<Rightarrow> (string \<times> string list) list" where
  "extendAliases y =
     concat (map (\<lambda>k. (k, key_aliases y k) #
                      map (\<lambda>x. (x, k # filter (\<lambda>z. z \<noteq> x) (key_aliases y k))) (key_aliases y k))
               (declared_keys y))"

definition typed_keys :: "yargs \<Rightarrow> option_type \<Rightarrow> string list" where
  "typed_keys y t = map decl_key (filter (\<lambda>d. os_type (decl_spec d) = t) (y_options y))"

definition flags_of :: "yargs \<Rightarrow> flags" where
  "flags_of y =
     \<lparr>fl_bools = special_keys y,
      fl_strings = typed_keys y TypeString,
      fl_arrays = typed_keys y TypeArray,
      fl_aliases = extendAliases y,
      fl_newAliases = concat (map (camel_aliases y) (declared_keys y)),
      fl_defaults = []\<rparr>"

subsection \<open>The parsed arguments\<close>

text \<open>
  The object reads its arguments with the tokeniser and looks at the help and version
  options.  \<^verbatim>\<open>.help()\<close> also makes the name of the help option an implicit command: when the
  last positional is that name (or an alias of it of more than one character), it is taken
  off the positionals and counts as the help option.
\<close>

record parsed =
  pa_argv :: "(string \<times> jsvalue) list"
  pa_positional :: "string list"
  pa_doubleDash :: "string list"
  pa_flags :: flags
  pa_help :: bool
  pa_version :: bool

definition optSet :: "parsing \<Rightarrow> string \<Rightarrow> bool" where
  "optSet p k = (case map_of (p_argv p) k of None \<Rightarrow> False | Some v \<Rightarrow> truthy v)"

definition helpCmds :: "yargs \<Rightarrow> flags \<Rightarrow> string list" where
  "helpCmds y f =
     (case y_helpOpt y of None \<Rightarrow> []
      | Some h \<Rightarrow> filter (\<lambda>k. 1 < length k) (h # aliases_of f h))"

definition parseArgs :: "(string \<Rightarrow> string) \<Rightarrow> yargs \<Rightarrow> parsed" where
  "parseArgs number y =
     (let p = Parser number (flags_of y) (y_processArgs y);
          helpOptSet = (case y_helpOpt y of None \<Rightarrow> False | Some h \<Rightarrow> optSet p h);
          versionOptSet = (case y_versionOpt y of None \<Rightarrow> False | Some (k, v) \<Rightarrow> optSet p k);
          helpCmd = (p_positional p \<noteq> [] \<and> last (p_positional p) \<in> set (helpCmds y (p_flags p)))
      in \<lparr>pa_argv = p_argv p,
          pa_positional = (if helpCmd then butlast (p_positional p) else p_positional p),
          pa_doubleDash = p_notFlags p,
          pa_flags = p_flags p,
          pa_help = (helpOptSet \<or> helpCmd),
          pa_version = versionOptSet\<rparr>)"

definition versionText :: "yargs \<Rightarrow> string" where
  "versionText y = (case y_versionOpt y of None \<Rightarrow> [] | Some (k, v) \<Rightarrow> v)"

subsection \<open>Failures and their messages\<close>

text \<open>
  The checks the configured object can fail: too few positionals for the command
  (\<^verbatim>\<open>Not enough non-option arguments\<close>, with the count found and the count needed), a key
  declared with \<^verbatim>\<open>demandOption\<close> that has no value, arguments that strict mode does not know,
  and too few commands for \<^verbatim>\<open>demandCommand\<close> (with the message given at line 200).  The text
  of a message of the package is looked up in the locale, in its singular or plural form,
  and \<^verbatim>\<open>%s\<close> in it stands for the next argument; arguments that are left over follow after a
  blank.
\<close>

datatype error =
    MissingRequiredArgument nat nat
  | MissingRequiredOption "string list"
  | UnknownArgument "string list"
  | DemandedCommand string

fun format :: "string \<Rightarrow> string list \<Rightarrow> string" where
  "format [] args = concat (map (\<lambda>a. CHR '' '' # a) args)"
| "format [c] args = c # format [] args"
| "format (c # d # r) args =
     (if c = CHR ''%'' \<and> d = CHR ''s''
      then (case args of [] \<Rightarrow> c # d # format r [] | a # as \<Rightarrow> a @ format r as)
      else c # format (d # r) args)"

definition translate :: "runtime \<Rightarrow> string \<Rightarrow> string" where
  "translate rt s = y18n rt s"

definition translate_n :: "runtime \<Rightarrow> string \<Rightarrow> string \<Rightarrow> nat \<Rightarrow> string list \<Rightarrow> string" where
  "translate_n rt one other n args = format (y18n rt (if n = 1 then one else other)) args"

text \<open>
  An argument that is empty once trimmed is shown in double quotes.  \<^verbatim>\<open>trim\<close> removes the
  white space and the line terminators of the language; \<open>blank\<close> reads them in the UTF-8
  bytes of the argument: U+0009 to U+000D, U+0020, U+00A0, U+1680, U+2000 to U+200A, U+2028,
  U+2029, U+202F, U+205F, U+3000 and U+FEFF.
\<close>

fun blank :: "string \<Rightarrow> bool" where
  "blank [] = True"
| "blank (c # cs) =
     (if code c = 32 \<or> (9 \<le> code c \<and> code c \<le> 13) then blank cs
      else if code c = 0xC2
        then (case cs of d # r \<Rightarrow> code d = 0xA0 \<and> blank r | _ \<Rightarrow> False)
      else if code c = 0xE1
        then (case cs of d # e # r \<Rightarrow> code d = 0x9A \<and> code e = 0x80 \<and> blank r
              | _ \<Rightarrow> False)
      else if code c = 0xE2
        then (case cs of
                d # e # r \<Rightarrow>
                  ((code d = 0x80 \<and>
                    ((0x80 \<le> code e \<and> code e \<le> 0x8A) \<or> code e = 0xA8 \<or> code e = 0xA9 \<or>
                     code e = 0xAF)) \<or>
                   (code d = 0x81 \<and> code e = 0x9F)) \<and> blank r
              | _ \<Rightarrow> False)
      else if code c = 0xE3
        then (case cs of d # e # r \<Rightarrow> code d = 0x80 \<and> code e = 0x80 \<and> blank r
              | _ \<Rightarrow> False)
      else if code c = 0xEF
        then (case cs of d # e # r \<Rightarrow> code d = 0xBB \<and> code e = 0xBF \<and> blank r
              | _ \<Rightarrow> False)
      else False)"

definition shown :: "string \<Rightarrow> string" where
  "shown a = (if blank a then [CHR 0x22] @ a @ [CHR 0x22] else a)"

definition message :: "runtime \<Rightarrow> error \<Rightarrow> string" where
  "message rt e =
     (case e of
        MissingRequiredArgument got need \<Rightarrow>
          translate_n rt ''Not enough non-option arguments: got %s, need at least %s''
            ''Not enough non-option arguments: got %s, need at least %s'' got
            [toDecimal got, toDecimal need]
      | MissingRequiredOption ks \<Rightarrow>
          translate_n rt ''Missing required argument: %s'' ''Missing required arguments: %s''
            (length ks) [join '', '' ks]
      | UnknownArgument as \<Rightarrow>
          translate_n rt ''Unknown argument: %s'' ''Unknown arguments: %s'' (length as)
            [join '', '' (map shown as)]
      | DemandedCommand msg \<Rightarrow> msg)"

subsection \<open>The help text\<close>

text \<open>
  The usage text names the script, lists the registered commands with their descriptions
  (the default command is tagged), the positionals and the options.  The headings and the
  descriptions of the help and version options are texts of the package and are looked up
  in the locale.  The layout of the real text (columns aligned and wrapped to the width of
  the terminal, type tags at the right margin) is left out: a line here is the words of the
  real line, two blanks apart.
\<close>

fun replace_script :: "string \<Rightarrow> string \<Rightarrow> string" where
  "replace_script n (c # d # r) =
     (if c = CHR ''$'' \<and> d = CHR ''0'' then n @ replace_script n r
      else c # replace_script n (d # r))"
| "replace_script n r = r"

definition command_line :: "runtime \<Rightarrow> yargs \<Rightarrow> command_module \<Rightarrow> string" where
  "command_line rt y m =
     ''  '' @ replace_script (y_scriptName y)
               (if is_default m then cm_command m else ''$0 '' @ cm_command m) @
     ''  '' @ cm_describe m @
     (if is_default m then ''  ['' @ translate rt ''default'' @ '']'' else [])"

definition flag :: "string \<Rightarrow> string" where
  "flag k = (if length k = 1 then ''-'' else ''--'') @ k"

definition option_line :: "yargs \<Rightarrow> string \<Rightarrow> string \<Rightarrow> string" where
  "option_line y k d =
     ''  '' @ join '', '' (map flag (given_aliases y k @ [k])) @ ''  '' @ d"

definition option_lines :: "runtime \<Rightarrow> yargs \<Rightarrow> string list" where
  "option_lines rt y =
     translate rt ''Options:'' #
     (case y_helpOpt y of None \<Rightarrow> [] | Some h \<Rightarrow> [option_line y h (translate rt ''Show help'')]) @
     (case y_versionOpt y of None \<Rightarrow> []
      | Some (k, v) \<Rightarrow> [option_line y k (translate rt ''Show version number'')]) @
     map (\<lambda>d. option_line y (decl_key d) (os_describe (decl_spec d)))
       (filter (\<lambda>d. \<not> is_positional d) (y_options y))"

definition positional_line :: "decl \<Rightarrow> string" where
  "positional_line d = ''  '' @ decl_key d @ ''  '' @ os_describe (decl_spec d)"

definition showHelp :: "runtime \<Rightarrow> yargs \<Rightarrow> string list" where
  "showHelp rt y =
     (case y_usage y of
        None \<Rightarrow> []
      | Some (u, d) \<Rightarrow>
          [replace_script (y_scriptName y) u, []] @
          (case d of None \<Rightarrow> [] | Some t \<Rightarrow> [t, []])) @
     (if y_commands y = [] then []
      else translate rt ''Commands:'' # map (command_line rt y) (y_commands y) @ [[]]) @
     (if filter is_positional (y_options y) = [] then []
      else translate rt ''Positionals:'' #
           map positional_line (filter is_positional (y_options y)) @ [[]]) @
     option_lines rt y"

text \<open>
  A failure: the help text on standard error, \<^verbatim>\<open>console.error()\<close> with no argument, the
  message on standard error, and the process ends with code 1.
\<close>

definition fail :: "runtime \<Rightarrow> yargs \<Rightarrow> string \<Rightarrow> outcome \<Rightarrow> outcome" where
  "fail rt y msg out =
     process_exit 1
       (console_error (Some [msg]) (console_error None (console_error (Some (showHelp rt y)) out)))"

subsection \<open>Running a command\<close>

text \<open>
  Before a command runs, the object is reset and the builder of the command is applied: the
  registered commands and the requirement of \<^verbatim>\<open>demandCommand\<close>, which is local to the top
  level, are dropped, and the builder's keys are declared.  For a command found by its name
  the usage text becomes that of the command; for the default command it stays that of the
  top level.
\<close>

definition applyBuilder :: "command_module \<Rightarrow> bool \<Rightarrow> yargs \<Rightarrow> yargs" where
  "applyBuilder m named y =
     (let r = y\<lparr>y_handlers := [], y_demandedCommands := None,
                y_options := y_options y @ cm_builder m\<rparr>
      in if named
         then r\<lparr>y_usage := Some (''$0 '' @ (if is_default m then [] else cm_command m),
                                 Some (cm_describe m)),
                y_commands := []\<rparr>
         else r)"

text \<open>
  Positionals are handed out in the order of the command string: a demanded or optional
  name takes the next argument, a variadic one takes all that are left.  What is left over
  stays among the positionals.
\<close>

fun populatePositionals ::
  "positional_spec list \<Rightarrow> string list \<Rightarrow> (string \<times> string list) list \<times> string list" where
  "populatePositionals [] rest = ([], rest)"
| "populatePositionals (p # ps) rest =
     (if ps_variadic p
      then ((ps_name p, rest) # fst (populatePositionals ps []), snd (populatePositionals ps []))
      else (case rest of
              [] \<Rightarrow> populatePositionals ps []
            | v # vs \<Rightarrow>
                ((ps_name p, [v]) # fst (populatePositionals ps vs),
                 snd (populatePositionals ps vs))))"

text \<open>
  The values of the positionals are then read once more as if they had been given as
  options, \<^verbatim>\<open>--key value\<close> for each, with a variadic name declared an array, and are stored
  under their keys and the aliases of these; a key that already holds an array, or is given
  one, collects both.  So a value whose key the builder does not declare a string goes
  through \<open>maybeCoerceNumber\<close>.
\<close>

definition unparsed :: "(string \<times> string list) list \<Rightarrow> string list" where
  "unparsed pm = concat (map (\<lambda>(k, vs). concat (map (\<lambda>v. [''--'' @ k, v]) vs)) pm)"

definition is_array :: "jsvalue \<Rightarrow> bool" where
  "is_array v = (case v of Arr xs \<Rightarrow> True | _ \<Rightarrow> False)"

definition concat_values :: "jsvalue \<Rightarrow> jsvalue \<Rightarrow> jsvalue" where
  "concat_values a b =
     Arr ((case a of Arr xs \<Rightarrow> xs | _ \<Rightarrow> [a]) @ (case b of Arr ys \<Rightarrow> ys | _ \<Rightarrow> [b]))"

text \<open>
  The own keys of an object come in the order in which they were set, but for the keys that
  are array indices, which come first, in ascending order.
\<close>

definition decimal :: "string \<Rightarrow> nat" where
  "decimal k = foldl (\<lambda>n c. 10 * n + (code c - 48)) 0 k"

definition array_index :: "string \<Rightarrow> bool" where
  "array_index k =
     (k \<noteq> [] \<and> list_all is_digit k \<and> (k = ''0'' \<or> hd k \<noteq> CHR ''0'') \<and> decimal k < 4294967295)"

definition own_entries :: "(string \<times> 'a) list \<Rightarrow> (string \<times> 'a) list" where
  "own_entries obj =
     sort_key (\<lambda>(k, v). decimal k) (filter (\<lambda>(k, v). array_index k) obj) @
     filter (\<lambda>(k, v). \<not> array_index k) obj"

definition postProcessPositionals ::
  "(string \<Rightarrow> string) \<Rightarrow> yargs \<Rightarrow> parsed_command \<Rightarrow> (string \<times> string list) list \<Rightarrow> (string \<times> jsvalue) list \<Rightarrow>
   (string \<times> jsvalue) list \<times> string list" where
  "postProcessPositionals number y pc pm argv =
     (if unparsed pm = [] then (argv, map fst pm)
      else (let variadic = map ps_name (filter ps_variadic (pc_demanded pc @ pc_optional pc));
                f = (flags_of y)\<lparr>fl_arrays := fl_arrays (flags_of y) @ variadic,
                                 fl_defaults := map (\<lambda>k. (k, Arr [])) variadic\<rparr>;
                p = Parser number f (unparsed pm);
                positionalKeys =
                  map fst pm @ concat (map (\<lambda>(k, vs). aliases_of (p_flags p) k) pm);
                found = filter (\<lambda>(k, v). k \<in> set positionalKeys) (own_entries (p_argv p))
            in (fold (\<lambda>(k, v) a.
                        put k (case map_of a k of
                                 None \<Rightarrow> v
                               | Some w \<Rightarrow> if is_array w \<or> is_array v then concat_values w v else v) a)
                  found argv,
                map fst pm @ filter (\<lambda>k. k \<notin> set (map fst pm)) (map fst found))))"

text \<open>
  The checks.  A key is demanded when it is declared with \<^verbatim>\<open>demandOption\<close>, or as a positional
  that the command string demands.  In strict mode a key is unknown unless it is a
  positional of the command, a declared key, or an alias of one that the tokeniser did not
  make up itself; every positional left over that is not the name of a registered command
  is unknown too.  What follows \<^verbatim>\<open>--\<close> is not looked at.
\<close>

definition demandedOptions :: "yargs \<Rightarrow> command_module option \<Rightarrow> string list" where
  "demandedOptions y ctx =
     map decl_key
       (filter (\<lambda>d. os_demandOption (decl_spec d) \<or>
                     (is_positional d \<and>
                      (case ctx of None \<Rightarrow> False
                       | Some m \<Rightarrow> decl_key d \<in> set (map ps_name (pc_demanded (parseCommand (cm_command m)))))))
          (y_options y))"

definition requiredArguments ::
  "yargs \<Rightarrow> command_module option \<Rightarrow> (string \<times> jsvalue) list \<Rightarrow> string list" where
  "requiredArguments y ctx argv = filter (\<lambda>k. map_of argv k = None) (demandedOptions y ctx)"

definition isValidAndSomeAliasIsNotNew :: "flags \<Rightarrow> string \<Rightarrow> bool" where
  "isValidAndSomeAliasIsNotNew f key =
     (map_of (fl_aliases f) key \<noteq> None \<and>
      (key \<notin> set (fl_newAliases f) \<or> list_ex (\<lambda>a. a \<notin> set (fl_newAliases f)) (aliases_of f key)))"

definition unknownArguments ::
  "yargs \<Rightarrow> flags \<Rightarrow> (string \<times> jsvalue) list \<Rightarrow> string list \<Rightarrow> string list \<Rightarrow> string list" where
  "unknownArguments y f argv positionalKeys remaining =
     filter (\<lambda>k. k \<notin> {''$0'', ''--'', ''_''} \<and> k \<notin> set positionalKeys \<and>
                 \<not> isValidAndSomeAliasIsNotNew f k)
       (map fst (own_entries argv)) @
     filter (\<lambda>k. k \<notin> set (map command_name (y_handlers y))) remaining"

datatype result =
    Failed "command_module option" error
  | HelpShown "command_module option"
  | VersionShown string
  | Handled "command_module option" "effect list"

text \<open>
  \<open>named\<close> tells whether the command was found by its name among the positionals (then the
  name is not an argument of it) or runs as the default command.  The arguments are read
  again, now with the keys of the builder declared.  The help and version options come
  first and skip every check; then the count of positionals is checked, the positionals
  are handed out, the demanded keys and strict mode are checked, and only then the handler
  runs.
\<close>

definition yargs_runCommand :: "runtime \<Rightarrow> yargs \<Rightarrow> command_module \<Rightarrow> bool \<Rightarrow> result" where
  "yargs_runCommand rt y m named =
     (let ctx = (if named then Some m else None);
          inner = applyBuilder m named y;
          pa = parseArgs (numberToString rt) inner;
          pc = parseCommand (cm_command m);
          args = (if named then drop 1 (pa_positional pa) else pa_positional pa);
          pm = populatePositionals (pc_demanded pc @ pc_optional pc) args;
          post = postProcessPositionals (numberToString rt) inner pc (fst pm) (pa_argv pa);
          missing = requiredArguments inner (Some m) (fst post);
          unknown = unknownArguments inner (pa_flags pa) (fst post) (snd post) (snd pm)
      in if pa_help pa then HelpShown ctx
         else if pa_version pa then VersionShown (versionText y)
         else if length args < length (pc_demanded pc)
           then Failed ctx (MissingRequiredArgument (length args) (length (pc_demanded pc)))
         else if missing \<noteq> [] then Failed ctx (MissingRequiredOption missing)
         else if y_strict y \<and> unknown \<noteq> [] then Failed ctx (UnknownArgument unknown)
         else Handled ctx (cm_handler m (fst post)))"

text \<open>
  The first positional (of what the implicit help command has left) decides: if it is the
  name of a registered command, that command runs.  Otherwise the default command runs, if
  there is one and help was not asked for.  Otherwise the top level answers: help, version,
  and the checks, where \<^verbatim>\<open>demandCommand\<close> counts the positionals.  The requirement is local
  to the top level and is dropped when a command, the default one included, takes over.
\<close>

definition tooFewCommands :: "yargs \<Rightarrow> parsed \<Rightarrow> bool" where
  "tooFewCommands y pa =
     (case y_demandedCommands y of None \<Rightarrow> False
      | Some (n, msg) \<Rightarrow> length (pa_positional pa) + length (pa_doubleDash pa) < n)"

definition demandMessage :: "yargs \<Rightarrow> string" where
  "demandMessage y = (case y_demandedCommands y of None \<Rightarrow> [] | Some (n, msg) \<Rightarrow> msg)"

definition yargs_dispatch :: "runtime \<Rightarrow> yargs \<Rightarrow> result" where
  "yargs_dispatch rt y =
     (let pa = parseArgs (numberToString rt) y;
          byName = (case pa_positional pa of [] \<Rightarrow> None
                    | c # _ \<Rightarrow> find (\<lambda>m. command_name m = c) (rev (y_handlers y)));
          unknown = unknownArguments y (pa_flags pa) (pa_argv pa) [] (pa_positional pa)
      in case byName of
           Some m \<Rightarrow> yargs_runCommand rt y m True
         | None \<Rightarrow>
             (case (if pa_help pa then None else find is_default (rev (y_handlers y))) of
                Some m \<Rightarrow> yargs_runCommand rt y m False
              | None \<Rightarrow>
                  if pa_help pa then HelpShown None
                  else if pa_version pa then VersionShown (versionText y)
                  else if tooFewCommands y pa
                    then Failed None (DemandedCommand (demandMessage y))
                  else if requiredArguments y None (pa_argv pa) \<noteq> []
                    then Failed None (MissingRequiredOption (requiredArguments y None (pa_argv pa)))
                  else if y_strict y \<and> unknown \<noteq> [] then Failed None (UnknownArgument unknown)
                  else Handled None []))"

text \<open>
  What the process shows for each result.  Help and version asked for go to standard output
  and end the process with code 0.  A failure is reported as above.  A handler writes its
  lines; \<^verbatim>\<open>showHelp()\<close> called without an argument writes with \<^verbatim>\<open>console.error\<close>; an
  exception thrown in a handler is caught by nothing.
\<close>

fun perform :: "runtime \<Rightarrow> string list \<Rightarrow> effect list \<Rightarrow> outcome \<Rightarrow> outcome" where
  "perform rt help [] out = out"
| "perform rt help (Log s # es) out = perform rt help es (console_log [s] out)"
| "perform rt help (ShowHelp # es) out = perform rt help es (console_error (Some help) out)"
| "perform rt help (Throw # es) out = uncaught rt TypeError out"

definition usage_of :: "yargs \<Rightarrow> command_module option \<Rightarrow> yargs" where
  "usage_of y ctx = (case ctx of None \<Rightarrow> y | Some m \<Rightarrow> applyBuilder m True y)"

definition render :: "runtime \<Rightarrow> yargs \<Rightarrow> result \<Rightarrow> outcome" where
  "render rt y r =
     (case r of
        Failed ctx e \<Rightarrow> fail rt (usage_of y ctx) (message rt e) started
      | HelpShown ctx \<Rightarrow> process_exit 0 (console_log (showHelp rt (usage_of y ctx)) started)
      | VersionShown v \<Rightarrow> process_exit 0 (console_log [v] started)
      | Handled ctx es \<Rightarrow> perform rt (showHelp rt (usage_of y ctx)) es started)"

definition yargs_parse :: "runtime \<Rightarrow> yargs \<Rightarrow> outcome" where
  "yargs_parse rt y = render rt y (yargs_dispatch rt y)"


section \<open>The script \<^verbatim>\<open>src/index.ts\<close>\<close>

text \<open>
  \<^verbatim>\<open>process.argv\<close>, as bun makes it from the vector the process was started with: the paths
  of the interpreter and of the script, and the arguments after the script, without a \<^verbatim>\<open>--\<close>
  that comes first among them.  \<^verbatim>\<open>hideBin\<close> drops the two paths.
\<close>

definition passthrough :: "string list \<Rightarrow> string list" where
  "passthrough args = (case args of [] \<Rightarrow> [] | a # rest \<Rightarrow> if a = ''--'' then rest else args)"

definition process_argv :: "string list \<Rightarrow> string list" where
  "process_argv argv = take 2 argv @ passthrough (drop 2 argv)"

definition hideBin :: "string list \<Rightarrow> string list" where
  "hideBin argv = drop 2 argv"

subsection \<open>The handlers (lines 58 to 60, 81 to 83, 109 to 111, 138 to 140, 169 to 176, 193 to 195)\<close>

definition log_template :: "string \<Rightarrow> string option \<Rightarrow> effect list" where
  "log_template prefix text = (case text of None \<Rightarrow> [Throw] | Some s \<Rightarrow> [Log (prefix @ s)])"

definition default_handler :: "string \<Rightarrow> CLIArguments \<Rightarrow> effect list" where
  "default_handler version argv = [Log (''Refrescante version: '' @ version)]"

definition init_handler :: "CLIArguments \<Rightarrow> effect list" where
  "init_handler argv = [Log ''Initializing RefrescanteUI project...'']"

definition add_handler :: "CLIArguments \<Rightarrow> effect list" where
  "add_handler argv =
     log_template ''Adding component: '' (template (map_of argv ''component-name''))"

definition remove_handler :: "CLIArguments \<Rightarrow> effect list" where
  "remove_handler argv =
     log_template ''Removing component: '' (template (map_of argv ''component-name''))"

text \<open>
  Lines 170 to 175.  \<^verbatim>\<open>components?.length\<close> is the number of elements of an array, the
  property \<^verbatim>\<open>length\<close> of an object, the length of a string, and absent for any other value;
  \<^verbatim>\<open>join\<close> exists for an array only, and calling it on anything else throws.
\<close>

definition upgrade_handler :: "CLIArguments \<Rightarrow> effect list" where
  "upgrade_handler argv =
     (let components = map_of argv ''components'';
          everything = [Log ''Upgrading Refrescante package and all components...'']
      in case components of
           Some (Arr vs) \<Rightarrow>
             if length vs \<noteq> 0
             then log_template ''Upgrading components: ''
                    (map_option (join '', '') (those (map toString vs)))
             else everything
         | Some (Obj ps) \<Rightarrow>
             (case map_of ps ''length'' of
                Some v \<Rightarrow> if truthy v then [Throw] else everything
              | None \<Rightarrow> everything)
         | Some (Str s) \<Rightarrow> if s \<noteq> [] then [Throw] else everything
         | _ \<Rightarrow> everything)"

definition wipe_handler :: "CLIArguments \<Rightarrow> effect list" where
  "wipe_handler argv = [Log ''Wiping Refrescante package from the project...'']"

subsection \<open>The builders\<close>

definition add_builder :: "decl list" where
  "add_builder =
     [DeclPositional ''component-name''
        \<lparr>os_describe = ''The name of the component to add'', os_type = TypeString,
         os_demandOption = True\<rparr>]"

definition remove_builder :: "decl list" where
  "remove_builder =
     [DeclPositional ''component-name''
        \<lparr>os_describe = ''The name of the component to remove'', os_type = TypeString,
         os_demandOption = True\<rparr>]"

definition upgrade_builder :: "decl list" where
  "upgrade_builder =
     [DeclOption ''components''
        \<lparr>os_describe = ''List of components to upgrade (leave blank to upgrade all)'',
         os_type = TypeArray, os_demandOption = False\<rparr>]"

subsection \<open>The configured object (lines 41 to 200) and the script\<close>

definition init_command :: command_module where
  "init_command =
     \<lparr>cm_command = ''init'',
      cm_describe = ''Initialize the RefrescanteUI project in the current directory'',
      cm_builder = [], cm_handler = init_handler\<rparr>"

definition add_command :: command_module where
  "add_command =
     \<lparr>cm_command = ''add <component-name>'', cm_describe = ''Add a component to the project'',
      cm_builder = add_builder, cm_handler = add_handler\<rparr>"

definition remove_command :: command_module where
  "remove_command =
     \<lparr>cm_command = ''remove <component-name>'',
      cm_describe = ''Remove a component from the project'',
      cm_builder = remove_builder, cm_handler = remove_handler\<rparr>"

definition upgrade_command :: command_module where
  "upgrade_command =
     \<lparr>cm_command = ''upgrade [components...]'',
      cm_describe =
        ''Upgrade Refrescante package version and optionally specific components or all'',
      cm_builder = upgrade_builder, cm_handler = upgrade_handler\<rparr>"

definition wipe_command :: command_module where
  "wipe_command =
     \<lparr>cm_command = ''wipe'', cm_describe = ''Remove the Refrescante package from the project'',
      cm_builder = [], cm_handler = wipe_handler\<rparr>"

definition default_command :: "string \<Rightarrow> command_module" where
  "default_command version =
     \<lparr>cm_command = ''$0'', cm_describe = ''Displays version number'',
      cm_builder = [], cm_handler = default_handler version\<rparr>"

text \<open>Lines 41 to 200; \<open>argv\<close> is the vector the process was started with.\<close>

definition cli :: "string \<Rightarrow> string list \<Rightarrow> yargs" where
  "cli version argv =
     chain (yargs_new (hideBin (process_argv argv)))
       [yargs_scriptName ''refrescante'',
        yargs_usage ''Usage: $0 <command> [options]'',
        yargs_help,
        yargs_alias ''h'' ''help'',
        yargs_version version,
        yargs_alias ''v'' ''version'',
        yargs_command (default_command version),
        yargs_command init_command,
        yargs_command add_command,
        yargs_command remove_command,
        yargs_command upgrade_command,
        yargs_command wipe_command,
        yargs_strict,
        yargs_demandCommand 1 ''You need to specify a command'']"

text \<open>
  The script.  Line 29 reads \<^verbatim>\<open>./package.json\<close> and takes its field \<^verbatim>\<open>version\<close>;
  \<open>packageVersion\<close> is that string, and \<open>None\<close> when the file cannot be read or its text
  cannot be parsed: \<^verbatim>\<open>readFileSync\<close> or \<^verbatim>\<open>JSON.parse\<close> throws, and the script catches nothing.
  (A file whose \<^verbatim>\<open>version\<close> is absent or is no string is not described.)  Lines 32 to 35: an
  argument vector that holds the token \<^verbatim>\<open>--version\<close> is answered at once.  Any other goes to
  the parser object (line 203).
\<close>

definition index_ts :: "runtime \<Rightarrow> string option \<Rightarrow> string list \<Rightarrow> outcome" where
  "index_ts rt packageVersion argv =
     (case packageVersion of
        None \<Rightarrow> uncaught rt ReadError started
      | Some version \<Rightarrow>
          if ''--version'' \<in> set (process_argv argv)
          then process_exit 0 (console_log [version] started)
          else yargs_parse rt (cli version argv))"

text \<open>
  \<^verbatim>\<open>runCommand\<close> of \<^verbatim>\<open>src/index.test.ts\<close> (lines 8 to 18) starts the script with the given
  arguments, in the directory in which the test file itself has read the version from
  \<^verbatim>\<open>./package.json\<close> (line 6).
\<close>

definition execPath :: string where
  "execPath = ''bun''"

definition CLI_PATH :: string where
  "CLI_PATH = ''./index.ts''"

definition runCommand :: "runtime \<Rightarrow> string list \<Rightarrow> outcome" where
  "runCommand rt args = index_ts rt (Some (pkgVersion rt)) (execPath # CLI_PATH # args)"

section \<open>The variant in \<^verbatim>\<open>src/unnamed/part_000\<close> (lines 1 to 127)\<close>

text \<open>
  The first script of \<^verbatim>\<open>part_000\<close> differs from \<^verbatim>\<open>index.ts\<close> in its default command: another
  description, and a handler that calls \<^verbatim>\<open>cli.showHelp()\<close> after printing the version line.
  Its \<^verbatim>\<open>upgrade\<close> builder is a function that declares the same option with \<^verbatim>\<open>yargs.option\<close>.
\<close>

definition part_000_default_handler :: "string \<Rightarrow> CLIArguments \<Rightarrow> effect list" where
  "part_000_default_handler version argv =
     [Log (''Refrescante version: '' @ version), ShowHelp]"

definition part_000_default_command :: "string \<Rightarrow> command_module" where
  "part_000_default_command version =
     \<lparr>cm_command = ''$0'', cm_describe = ''Displays version and help message'',
      cm_builder = [], cm_handler = part_000_default_handler version\<rparr>"

definition part_000_cli :: "string \<Rightarrow> string list \<Rightarrow> yargs" where
  "part_000_cli version argv =
     chain (yargs_new (hideBin (process_argv argv)))
       [yargs_scriptName ''refrescante'',
        yargs_usage ''Usage: $0 <command> [options]'',
        yargs_help,
        yargs_alias ''h'' ''help'',
        yargs_version version,
        yargs_alias ''v'' ''version'',
        yargs_command (part_000_default_command version),
        yargs_command init_command,
        yargs_command add_command,
        yargs_command remove_command,
        yargs_command upgrade_command,
        yargs_command wipe_command,
        yargs_strict,
        yargs_demandCommand 1 ''You need to specify a command'']"

definition part_000 :: "runtime \<Rightarrow> string option \<Rightarrow> string list \<Rightarrow> outcome" where
  "part_000 rt packageVersion argv =
     (case packageVersion of
        None \<Rightarrow> uncaught rt ReadError started
      | Some version \<Rightarrow>
          if ''--version'' \<in> set (process_argv argv)
          then process_exit 0 (console_log [version] started)
          else yargs_parse rt (part_000_cli version argv))"

definition part_000_runCommand :: "runtime \<Rightarrow> string list \<Rightarrow> outcome" where
  "part_000_runCommand rt args = part_000 rt (Some (pkgVersion rt)) (execPath # CLI_PATH # args)"


section \<open>Notions used to state the properties\<close>

text \<open>A token that does not begin with a dash: the tokeniser takes it as a positional.\<close>

definition plain :: "string \<Rightarrow> bool" where
  "plain a = (case a of [] \<Rightarrow> True | c # _ \<Rightarrow> c \<noteq> CHR ''-'')"

text \<open>
  What the parser object decided in a run started by \<open>runCommand\<close>; there is no decision when
  the script has answered \<^verbatim>\<open>--version\<close> by itself.
\<close>

definition run_result :: "runtime \<Rightarrow> string list \<Rightarrow> result option" where
  "run_result rt args =
     (if ''--version'' \<in> set (execPath # CLI_PATH # args) then None
      else Some (yargs_dispatch rt (cli (pkgVersion rt) (execPath # CLI_PATH # args))))"

text \<open>The failure a run ends with, if any, and whether a handler was called.\<close>

definition failure_of :: "result \<Rightarrow> error option" where
  "failure_of r = (case r of Failed ctx e \<Rightarrow> Some e | _ \<Rightarrow> None)"

definition failure :: "runtime \<Rightarrow> string list \<Rightarrow> error option" where
  "failure rt args = (case run_result rt args of None \<Rightarrow> None | Some r \<Rightarrow> failure_of r)"

definition handler_invoked :: "runtime \<Rightarrow> string list \<Rightarrow> bool" where
  "handler_invoked rt args =
     (case run_result rt args of Some (Handled ctx es) \<Rightarrow> True | _ \<Rightarrow> False)"

text \<open>The names under which the script registers its commands, and its flags.\<close>

definition declared_commands :: "string list" where
  "declared_commands = [''$0'', ''init'', ''add'', ''remove'', ''upgrade'', ''wipe'']"

definition declared_flags :: "string list" where
  "declared_flags = [''--help'', ''-h'', ''--version'', ''-v'']"

text \<open>The locale is English when every text of the package is shown as it is.\<close>

definition english :: "runtime \<Rightarrow> bool" where
  "english rt = (y18n rt = (\<lambda>s. s))"

text \<open>A runtime for the examples: version \<^verbatim>\<open>1.0.0\<close>, English locale.\<close>

definition example_runtime :: runtime where
  "example_runtime =
     \<lparr>pkgVersion = ''1.0.0'', numberToString = id, y18n = id,
      report = (\<lambda>e. [''error: uncaught exception''])\<rparr>"

text \<open>
  What the tokeniser is told at the top level and inside \<^verbatim>\<open>init\<close>, \<^verbatim>\<open>wipe\<close> and the default
  command (\<open>top_flags\<close>), inside \<^verbatim>\<open>add\<close> and \<^verbatim>\<open>remove\<close> (\<open>name_flags\<close>), inside \<^verbatim>\<open>upgrade\<close>
  (\<open>upgrade_flags\<close>), and when the positionals of \<^verbatim>\<open>upgrade\<close> are read back (\<open>reread_flags\<close>);
  the lemmas \<open>flags_cli\<close> and \<open>flags_inner\<close> below show that the configured object gives
  these.
\<close>

definition top_flags :: flags where
  "top_flags =
     \<lparr>fl_bools = [''help'', ''version''], fl_strings = [], fl_arrays = [],
      fl_aliases = [(''help'', [''h'']), (''h'', [''help'']), (''version'', [''v'']),
                    (''v'', [''version''])],
      fl_newAliases = [], fl_defaults = []\<rparr>"

definition name_flags :: flags where
  "name_flags =
     \<lparr>fl_bools = [''help'', ''version''], fl_strings = [''component-name''], fl_arrays = [],
      fl_aliases = [(''help'', [''h'']), (''h'', [''help'']), (''version'', [''v'']),
                    (''v'', [''version'']), (''component-name'', [''componentName'']),
                    (''componentName'', [''component-name''])],
      fl_newAliases = [''componentName''], fl_defaults = []\<rparr>"

definition upgrade_flags :: flags where
  "upgrade_flags =
     \<lparr>fl_bools = [''help'', ''version''], fl_strings = [], fl_arrays = [''components''],
      fl_aliases = [(''help'', [''h'']), (''h'', [''help'']), (''version'', [''v'']),
                    (''v'', [''version'']), (''components'', [])],
      fl_newAliases = [], fl_defaults = []\<rparr>"

definition reread_flags :: flags where
  "reread_flags =
     \<lparr>fl_bools = [''help'', ''version''], fl_strings = [],
      fl_arrays = [''components'', ''components''],
      fl_aliases = [(''help'', [''h'']), (''h'', [''help'']), (''version'', [''v'']),
                    (''v'', [''version'']), (''components'', [])],
      fl_newAliases = [], fl_defaults = [(''components'', Arr [])]\<rparr>"

text \<open>
  A value of a key that is no string, after \<open>maybeCoerceNumber\<close>, and the text it shows.
\<close>

definition coerced :: "(string \<Rightarrow> string) \<Rightarrow> string \<Rightarrow> jsvalue" where
  "coerced number n = (if looksLikeNumber n then Num (toNumber number n) else Str n)"

definition value_text :: "(string \<Rightarrow> string) \<Rightarrow> string \<Rightarrow> string" where
  "value_text number n = (if looksLikeNumber n then toNumber number n else n)"

text \<open>The parsed arguments when only \<^verbatim>\<open>components\<close> has been given values.\<close>

definition collected :: "jsvalue list \<Rightarrow> (string \<times> jsvalue) list" where
  "collected vs = (if vs = [] then [] else [(''components'', Arr vs)])"


section \<open>Evaluating the configured object\<close>

lemmas builder_defs = yargs_new_def yargs_scriptName_def yargs_usage_def yargs_help_def
  yargs_alias_def yargs_version_def yargs_command_def yargs_strict_def yargs_demandCommand_def
  chain_def hideBin_def

lemma cli_fields:
  "y_processArgs (cli v argv) = drop 2 (process_argv argv)"
  "y_scriptName (cli v argv) = ''refrescante''"
  "y_usage (cli v argv) = Some (''Usage: $0 <command> [options]'', None)"
  "y_helpOpt (cli v argv) = Some ''help''"
  "y_versionOpt (cli v argv) = Some (''version'', v)"
  "y_aliases (cli v argv) = [(''h'', ''help''), (''v'', ''version'')]"
  "y_options (cli v argv) = []"
  "y_handlers (cli v argv) =
     [default_command v, init_command, add_command, remove_command, upgrade_command, wipe_command]"
  "y_commands (cli v argv) =
     [default_command v, init_command, add_command, remove_command, upgrade_command, wipe_command]"
  "y_strict (cli v argv) = True"
  "y_demandedCommands (cli v argv) = Some (1, ''You need to specify a command'')"
  by (simp_all add: cli_def builder_defs)

lemma flags_cli: "flags_of (cli v argv) = top_flags"
  by (simp add: flags_of_def top_flags_def special_keys_def typed_keys_def extendAliases_def
      declared_keys_def key_aliases_def given_aliases_def camel_aliases_def cli_fields)

lemma plain_argument:
  "plain a \<Longrightarrow> a \<noteq> ''--'' \<and> argument number a rest st = (pushPositional a st, 0)"
  by (cases a) (auto simp: plain_def argument_def dashes_alone_def long_with_value_def
      starts_with_def dotted_short_def Let_def split: list.splits)

lemma tokens_plain:
  "\<forall>a\<in>set as. plain a \<Longrightarrow>
   tokens number as st = st\<lparr>p_positional := p_positional st @ as\<rparr>"
  by (induction as arbitrary: st) (simp_all add: plain_argument pushPositional_def)

lemma Parser_plain:
  "\<forall>a\<in>set as. plain a \<Longrightarrow>
   Parser number f as = \<lparr>p_argv = [], p_positional = as, p_notFlags = [], p_flags = f\<rparr>"
  by (simp add: Parser_def tokens_plain)

lemmas char_defs = code_def is_digit_def is_upper_def is_lower_def is_letter_def is_word_def

lemmas token_defs = argument_def dashes_alone_def long_with_value_def starts_with_def
  dotted_short_def negative_def line_terminator_def takeValue_def pushPositional_def

lemmas set_defs = setArg_def setKey_def processValue_def maybeCoerceNumber_def
  checkAllAliases_def aliases_of_def defaultValue_def sanitizeKey_def assign_def

lemma Parser_v:
  "Parser number top_flags [''-v''] =
     \<lparr>p_argv = [(''v'', Bool True), (''version'', Bool True)], p_positional = [],
      p_notFlags = [], p_flags = top_flags\<rparr>"
  by (simp add: Parser_def token_defs set_defs char_defs top_flags_def Let_def)

lemma Parser_help:
  "Parser number top_flags [''--help''] =
     \<lparr>p_argv = [(''help'', Bool True), (''h'', Bool True)], p_positional = [],
      p_notFlags = [], p_flags = top_flags\<rparr>"
  by (simp add: Parser_def token_defs set_defs char_defs top_flags_def Let_def)

lemmas command_defs = default_command_def part_000_default_command_def init_command_def
  add_command_def remove_command_def upgrade_command_def wipe_command_def

lemmas flags_defs = flags_of_def special_keys_def typed_keys_def extendAliases_def
  declared_keys_def key_aliases_def given_aliases_def camel_aliases_def

lemma camel_name: "camelCase ''component-name'' = ''componentName''"
  by (simp add: camelCase_def toLowerCase_def toUpperCase_def char_defs Let_def)

lemma inner_fields:
  "y_processArgs (applyBuilder m named y) = y_processArgs y"
  "y_scriptName (applyBuilder m named y) = y_scriptName y"
  "y_helpOpt (applyBuilder m named y) = y_helpOpt y"
  "y_versionOpt (applyBuilder m named y) = y_versionOpt y"
  "y_aliases (applyBuilder m named y) = y_aliases y"
  "y_options (applyBuilder m named y) = y_options y @ cm_builder m"
  "y_handlers (applyBuilder m named y) = []"
  "y_strict (applyBuilder m named y) = y_strict y"
  "y_demandedCommands (applyBuilder m named y) = None"
  by (simp_all add: applyBuilder_def Let_def)

lemma flags_inner:
  "flags_of (applyBuilder (default_command v) named (cli v argv)) = top_flags"
  "flags_of (applyBuilder init_command named (cli v argv)) = top_flags"
  "flags_of (applyBuilder wipe_command named (cli v argv)) = top_flags"
  "flags_of (applyBuilder add_command named (cli v argv)) = name_flags"
  "flags_of (applyBuilder remove_command named (cli v argv)) = name_flags"
  "flags_of (applyBuilder upgrade_command named (cli v argv)) = upgrade_flags"
  by (simp_all add: flags_defs inner_fields cli_fields command_defs add_builder_def
      remove_builder_def upgrade_builder_def camel_name top_flags_def name_flags_def
      upgrade_flags_def)

lemma starts_with_simps:
  "starts_with [] s = True"
  "starts_with (p # ps) [] = False"
  "starts_with (p # ps) (c # cs) = (p = c \<and> starts_with ps cs)"
  by (auto simp: starts_with_def)

lemma plain_no_dash: "plain a \<Longrightarrow> \<not> starts_with ''-'' a \<and> \<not> is_option a \<and> a \<noteq> ''--''"
  by (cases a) (auto simp: plain_def starts_with_def is_option_def)

lemma passthrough_plain: "\<forall>a\<in>set args. plain a \<Longrightarrow> passthrough args = args"
  by (cases args) (auto simp: passthrough_def plain_def)

lemma process_argv_run: "process_argv (e # s # args) = e # s # passthrough args"
  by (simp add: process_argv_def)

lemma parseArgs_plain:
  assumes "y_helpOpt y = Some ''help''" and "y_versionOpt y = Some (''version'', v)"
    and "aliases_of (flags_of y) ''help'' = [''h'']"
    and "\<forall>a\<in>set (y_processArgs y). plain a"
    and "y_processArgs y = [] \<or> last (y_processArgs y) \<noteq> ''help''"
  shows "parseArgs number y =
     \<lparr>pa_argv = [], pa_positional = y_processArgs y, pa_doubleDash = [],
      pa_flags = flags_of y, pa_help = False, pa_version = False\<rparr>"
  using assms(1,2,3,5)
  by (auto simp: parseArgs_def Parser_plain [OF assms(4)] optSet_def helpCmds_def Let_def)

lemma help_alias:
  "aliases_of top_flags ''help'' = [''h'']"
  "aliases_of name_flags ''help'' = [''h'']"
  "aliases_of upgrade_flags ''help'' = [''h'']"
  by (simp_all add: aliases_of_def top_flags_def name_flags_def upgrade_flags_def)

lemma command_names:
  "command_name (default_command v) = ''$0''"
  "command_name (part_000_default_command v) = ''$0''"
  "command_name init_command = ''init''"
  "command_name add_command = ''add''"
  "command_name remove_command = ''remove''"
  "command_name upgrade_command = ''upgrade''"
  "command_name wipe_command = ''wipe''"
  by (simp_all add: command_name_def command_defs parseCommand_def words_of_def is_bracket_def
      dots_then_bracket_def)

lemma dispatch_with_default:
  "find is_default (rev (y_handlers y)) = Some d \<Longrightarrow>
   yargs_dispatch rt y =
     (case (case pa_positional (parseArgs (numberToString rt) y) of [] \<Rightarrow> None
            | c # _ \<Rightarrow> find (\<lambda>m. command_name m = c) (rev (y_handlers y))) of
        Some m \<Rightarrow> yargs_runCommand rt y m True
      | None \<Rightarrow>
          if pa_help (parseArgs (numberToString rt) y) then HelpShown None
          else yargs_runCommand rt y d False)"
  by (simp add: yargs_dispatch_def Let_def split: option.splits list.splits)

lemma default_cli: "find is_default (rev (y_handlers (cli v argv))) = Some (default_command v)"
  by (simp add: cli_fields is_default_def command_names)

lemma byName_cli:
  "find (\<lambda>m. command_name m = c) (rev (y_handlers (cli v argv))) =
     (if c = ''wipe'' then Some wipe_command
      else if c = ''upgrade'' then Some upgrade_command
      else if c = ''remove'' then Some remove_command
      else if c = ''add'' then Some add_command
      else if c = ''init'' then Some init_command
      else if c = ''$0'' then Some (default_command v)
      else None)"
  by (simp add: cli_fields command_names eq_commute)

lemma dispatch_cli:
  "yargs_dispatch rt (cli v argv) =
     (case pa_positional (parseArgs (numberToString rt) (cli v argv)) of
        [] \<Rightarrow> if pa_help (parseArgs (numberToString rt) (cli v argv)) then HelpShown None
              else yargs_runCommand rt (cli v argv) (default_command v) False
      | c # _ \<Rightarrow>
          if c = ''wipe'' then yargs_runCommand rt (cli v argv) wipe_command True
          else if c = ''upgrade'' then yargs_runCommand rt (cli v argv) upgrade_command True
          else if c = ''remove'' then yargs_runCommand rt (cli v argv) remove_command True
          else if c = ''add'' then yargs_runCommand rt (cli v argv) add_command True
          else if c = ''init'' then yargs_runCommand rt (cli v argv) init_command True
          else if c = ''$0'' then yargs_runCommand rt (cli v argv) (default_command v) True
          else if pa_help (parseArgs (numberToString rt) (cli v argv)) then HelpShown None
          else yargs_runCommand rt (cli v argv) (default_command v) False)"
  by (simp add: dispatch_with_default [OF default_cli] byName_cli split: list.splits)

lemma parse_facts:
  "parseCommand ''$0'' = \<lparr>pc_cmd = ''$0'', pc_demanded = [], pc_optional = []\<rparr>"
  "parseCommand ''init'' = \<lparr>pc_cmd = ''init'', pc_demanded = [], pc_optional = []\<rparr>"
  "parseCommand ''wipe'' = \<lparr>pc_cmd = ''wipe'', pc_demanded = [], pc_optional = []\<rparr>"
  "parseCommand ''add <component-name>'' =
     \<lparr>pc_cmd = ''add'',
      pc_demanded = [\<lparr>ps_name = ''component-name'', ps_optional = False, ps_variadic = False\<rparr>],
      pc_optional = []\<rparr>"
  "parseCommand ''remove <component-name>'' =
     \<lparr>pc_cmd = ''remove'',
      pc_demanded = [\<lparr>ps_name = ''component-name'', ps_optional = False, ps_variadic = False\<rparr>],
      pc_optional = []\<rparr>"
  "parseCommand ''upgrade [components...]'' =
     \<lparr>pc_cmd = ''upgrade'', pc_demanded = [],
      pc_optional = [\<lparr>ps_name = ''components'', ps_optional = True, ps_variadic = True\<rparr>]\<rparr>"
  by (simp_all add: parseCommand_def words_of_def is_bracket_def positional_of_def
      dots_then_bracket_def)

lemma runCommand_plain:
  assumes "\<forall>a\<in>set args. plain a" and "args = [] \<or> last args \<noteq> ''help''"
    and "aliases_of (flags_of (applyBuilder m named (cli v (e # s # args)))) ''help'' = [''h'']"
  shows "yargs_runCommand rt (cli v (e # s # args)) m named =
     (let ctx = (if named then Some m else None);
          inner = applyBuilder m named (cli v (e # s # args));
          pc = parseCommand (cm_command m);
          as = (if named then drop 1 args else args);
          pm = populatePositionals (pc_demanded pc @ pc_optional pc) as;
          post = postProcessPositionals (numberToString rt) inner pc (fst pm) [];
          missing = requiredArguments inner (Some m) (fst post);
          unknown = unknownArguments inner (flags_of inner) (fst post) (snd post) (snd pm)
      in if length as < length (pc_demanded pc)
           then Failed ctx (MissingRequiredArgument (length as) (length (pc_demanded pc)))
         else if missing \<noteq> [] then Failed ctx (MissingRequiredOption missing)
         else if unknown \<noteq> [] then Failed ctx (UnknownArgument unknown)
         else Handled ctx (cm_handler m (fst post)))"
proof -
  let ?inner = "applyBuilder m named (cli v (e # s # args))"
  have args: "y_processArgs ?inner = args"
    by (simp add: inner_fields cli_fields process_argv_run passthrough_plain [OF assms(1)])
  have pa: "parseArgs (numberToString rt) ?inner =
     \<lparr>pa_argv = [], pa_positional = y_processArgs ?inner, pa_doubleDash = [],
      pa_flags = flags_of ?inner, pa_help = False, pa_version = False\<rparr>"
    by (rule parseArgs_plain [where v = v])
       (use assms args in \<open>simp_all add: inner_fields cli_fields\<close>)
  show ?thesis
    unfolding yargs_runCommand_def Let_def pa args
    by (simp add: cli_fields)
qed

lemma own_entries_simps:
  "own_entries [] = []"
  "\<not> array_index k \<Longrightarrow> own_entries ((k, v) # xs) =
     sort_key (\<lambda>(k, v). decimal k) (filter (\<lambda>(k, v). array_index k) xs) @
     (k, v) # filter (\<lambda>(k, v). \<not> array_index k) xs"
  by (simp_all add: own_entries_def)

lemma empty_post: "postProcessPositionals number y pc [] argv = (argv, [])"
  by (simp add: postProcessPositionals_def unparsed_def)

lemma top_unknown: "unknownArguments y f [] ks rest =
   filter (\<lambda>k. k \<notin> set (map command_name (y_handlers y))) rest"
  by (simp add: unknownArguments_def own_entries_def)

lemmas run_defs = runCommand_def index_ts_def yargs_parse_def render_def execPath_def
  CLI_PATH_def process_argv_run

lemmas io_defs = console_log_def console_error_def process_exit_def started_def fail_def
  uncaught_def usage_of_def

lemmas handler_defs = default_handler_def part_000_default_handler_def init_handler_def
  add_handler_def remove_handler_def upgrade_handler_def wipe_handler_def log_template_def
  template_def

lemma parseArgs_cli_plain:
  assumes "\<forall>a\<in>set args. plain a" and "args = [] \<or> last args \<noteq> ''help''"
  shows "parseArgs number (cli v (e # s # args)) =
     \<lparr>pa_argv = [], pa_positional = args, pa_doubleDash = [],
      pa_flags = top_flags, pa_help = False, pa_version = False\<rparr>"
proof -
  have args: "y_processArgs (cli v (e # s # args)) = args"
    by (simp add: cli_fields process_argv_run passthrough_plain [OF assms(1)])
  have "parseArgs number (cli v (e # s # args)) =
     \<lparr>pa_argv = [], pa_positional = y_processArgs (cli v (e # s # args)), pa_doubleDash = [],
      pa_flags = flags_of (cli v (e # s # args)), pa_help = False, pa_version = False\<rparr>"
    by (rule parseArgs_plain [where v = v])
       (use assms args in \<open>simp_all add: cli_fields flags_cli help_alias\<close>)
  then show ?thesis
    by (simp add: args flags_cli)
qed

lemma inner_unknown:
  "unknownArguments (applyBuilder m named y) f [] ks rest = rest"
  by (simp add: top_unknown inner_fields)

lemma run_default_plain:
  assumes "\<forall>a\<in>set args. plain a" and "args = [] \<or> last args \<noteq> ''help''"
  shows "yargs_runCommand rt (cli v (e # s # args)) (default_command v) False =
     (if args \<noteq> [] then Failed None (UnknownArgument args)
      else Handled None [Log (''Refrescante version: '' @ v)])"
  by (simp add: runCommand_plain [OF assms] flags_inner help_alias)
     (simp add: command_defs parse_facts empty_post requiredArguments_def demandedOptions_def
        inner_unknown inner_fields cli_fields handler_defs)

lemma no_args_run:
  "runCommand rt [] =
     \<lparr>stdout = [''Refrescante version: '' @ pkgVersion rt], stderr = [], exitCode = 0\<rparr>"
  by (simp add: run_defs passthrough_def dispatch_cli parseArgs_cli_plain run_default_plain
      io_defs)

lemma run_simple_plain:
  assumes "\<forall>a\<in>set (c # rest). plain a" and "c # rest = [] \<or> last (c # rest) \<noteq> ''help''"
  shows "yargs_runCommand rt (cli v (e # s # c # rest)) init_command True =
           (if rest \<noteq> [] then Failed (Some init_command) (UnknownArgument rest)
            else Handled (Some init_command) [Log ''Initializing RefrescanteUI project...''])"
    and "yargs_runCommand rt (cli v (e # s # c # rest)) wipe_command True =
           (if rest \<noteq> [] then Failed (Some wipe_command) (UnknownArgument rest)
            else Handled (Some wipe_command) [Log ''Wiping Refrescante package from the project...''])"
  by (simp_all add: runCommand_plain [OF assms] flags_inner help_alias)
     (simp_all add: command_defs parse_facts empty_post requiredArguments_def
        demandedOptions_def inner_unknown inner_fields cli_fields handler_defs)

lemma name_flags_update: "name_flags\<lparr>fl_defaults := []\<rparr> = name_flags"
  by (simp add: name_flags_def)

lemma name_aliases: "aliases_of name_flags ''component-name'' = [''componentName'']"
  by (simp add: aliases_of_def name_flags_def)

lemma reparse_name:
  "plain name \<Longrightarrow>
   Parser number name_flags [''--component-name'', name] =
     \<lparr>p_argv = [(''component-name'', Str name), (''componentName'', Str name)],
      p_positional = [], p_notFlags = [], p_flags = name_flags\<rparr>"
  by (simp add: Parser_def argument_def dashes_alone_def long_with_value_def starts_with_simps
      line_terminator_def takeValue_def set_defs char_defs addNewAlias_def addAlias_def
      plain_no_dash camel_name name_flags_def Let_def)

lemma not_index:
  "\<not> array_index ''component-name''" "\<not> array_index ''componentName''"
  "\<not> array_index ''components''"
  by (simp_all add: array_index_def char_defs)

lemma post_name:
  assumes "flags_of y = name_flags" and "plain name"
  shows "postProcessPositionals number y
           \<lparr>pc_cmd = c,
            pc_demanded = [\<lparr>ps_name = ''component-name'', ps_optional = False, ps_variadic = False\<rparr>],
            pc_optional = []\<rparr>
           [(''component-name'', [name])] [] =
         ([(''component-name'', Str name), (''componentName'', Str name)],
          [''component-name'', ''componentName''])"
  by (simp add: postProcessPositionals_def unparsed_def assms(1) name_flags_update
      reparse_name [OF assms(2)] own_entries_simps not_index name_aliases Let_def)

lemma demanded_inner:
  "demandedOptions (applyBuilder add_command True (cli v argv)) (Some add_command) =
     [''component-name'']"
  "demandedOptions (applyBuilder remove_command True (cli v argv)) (Some remove_command) =
     [''component-name'']"
  "demandedOptions (applyBuilder upgrade_command True (cli v argv)) (Some upgrade_command) = []"
  "demandedOptions (applyBuilder init_command True (cli v argv)) (Some init_command) = []"
  "demandedOptions (applyBuilder wipe_command True (cli v argv)) (Some wipe_command) = []"
  "demandedOptions (applyBuilder (default_command v) named (cli v argv))
     (Some (default_command v)) = []"
  by (simp_all add: demandedOptions_def inner_fields cli_fields command_defs add_builder_def
      remove_builder_def upgrade_builder_def)

lemma command_parts:
  "cm_handler add_command = add_handler" "cm_handler remove_command = remove_handler"
  "cm_handler upgrade_command = upgrade_handler" "cm_handler init_command = init_handler"
  "cm_handler wipe_command = wipe_handler"
  "cm_handler (default_command v) = default_handler v"
  "cm_handler (part_000_default_command v) = part_000_default_handler v"
  "parseCommand (cm_command add_command) = parseCommand ''add <component-name>''"
  "parseCommand (cm_command remove_command) = parseCommand ''remove <component-name>''"
  "parseCommand (cm_command upgrade_command) = parseCommand ''upgrade [components...]''"
  "parseCommand (cm_command init_command) = parseCommand ''init''"
  "parseCommand (cm_command wipe_command) = parseCommand ''wipe''"
  "parseCommand (cm_command (default_command v)) = parseCommand ''$0''"
  "parseCommand (cm_command (part_000_default_command v)) = parseCommand ''$0''"
  by (simp_all add: command_defs)

lemma run_named_plain:
  assumes "\<forall>a\<in>set (c # rest). plain a" and "c # rest = [] \<or> last (c # rest) \<noteq> ''help''"
  shows "yargs_runCommand rt (cli v (e # s # c # rest)) add_command True =
           (case rest of
              [] \<Rightarrow> Failed (Some add_command) (MissingRequiredArgument 0 1)
            | name # others \<Rightarrow>
                if others \<noteq> [] then Failed (Some add_command) (UnknownArgument others)
                else Handled (Some add_command) [Log (''Adding component: '' @ name)])"
    and "yargs_runCommand rt (cli v (e # s # c # rest)) remove_command True =
           (case rest of
              [] \<Rightarrow> Failed (Some remove_command) (MissingRequiredArgument 0 1)
            | name # others \<Rightarrow>
                if others \<noteq> [] then Failed (Some remove_command) (UnknownArgument others)
                else Handled (Some remove_command) [Log (''Removing component: '' @ name)])"
  using assms(1)
  by (simp_all add: runCommand_plain [OF assms] flags_inner help_alias command_parts
        parse_facts post_name requiredArguments_def demanded_inner unknownArguments_def
        own_entries_simps not_index inner_fields handler_defs Let_def split: list.splits)

lemma taken_none:
  "takeWhile (\<lambda>a. \<not> is_option a) (concat (map (\<lambda>v. [''--components'', v]) ns)) = []"
  by (cases ns) (simp_all add: is_option_def starts_with_simps negative_def char_defs)

lemma eat_components:
  assumes "plain n"
  shows "argument number ''--components''
           (n # concat (map (\<lambda>v. [''--components'', v]) ns))
           \<lparr>p_argv = collected acc, p_positional = [], p_notFlags = [], p_flags = reread_flags\<rparr> =
         (\<lparr>p_argv = collected (acc @ [coerced number n]), p_positional = [], p_notFlags = [],
           p_flags = reread_flags\<rparr>, 1)"
  using assms
  by (simp add: argument_def dashes_alone_def long_with_value_def starts_with_simps
      line_terminator_def eatArray_def taken_none set_defs char_defs plain_no_dash
      reread_flags_def collected_def coerced_def Let_def)

lemma reread_components:
  "\<forall>n\<in>set names. plain n \<Longrightarrow>
   tokens number (concat (map (\<lambda>v. [''--components'', v]) names))
     \<lparr>p_argv = collected acc, p_positional = [], p_notFlags = [], p_flags = reread_flags\<rparr> =
   \<lparr>p_argv = collected (acc @ map (coerced number) names), p_positional = [], p_notFlags = [],
    p_flags = reread_flags\<rparr>"
  by (induction names arbitrary: acc) (simp_all add: eat_components)

lemma upgrade_flags_update:
  "upgrade_flags\<lparr>fl_arrays := fl_arrays upgrade_flags @ [''components''],
                  fl_defaults := [(''components'', Arr [])]\<rparr> = reread_flags"
  by (simp add: upgrade_flags_def reread_flags_def)

lemma post_components:
  assumes "flags_of y = upgrade_flags" and "\<forall>n\<in>set names. plain n"
  shows "postProcessPositionals number y
           \<lparr>pc_cmd = c, pc_demanded = [],
            pc_optional = [\<lparr>ps_name = ''components'', ps_optional = True, ps_variadic = True\<rparr>]\<rparr>
           [(''components'', names)] [] =
         (collected (map (coerced number) names), [''components''])"
proof (cases names)
  case Nil
  then show ?thesis
    by (simp add: postProcessPositionals_def unparsed_def collected_def)
next
  case (Cons n ns)
  have u: "unparsed [(''components'', names)] =
      concat (map (\<lambda>v. [''--components'', v]) names)"
    by (simp add: unparsed_def)
  have p: "Parser number reread_flags (concat (map (\<lambda>v. [''--components'', v]) names)) =
      \<lparr>p_argv = collected (map (coerced number) names), p_positional = [], p_notFlags = [],
       p_flags = reread_flags\<rparr>"
    using reread_components [OF assms(2), of number "[]"]
    by (simp add: Parser_def collected_def)
  have a: "aliases_of reread_flags ''components'' = []"
    by (simp add: aliases_of_def reread_flags_def)
  from Cons have ne: "unparsed [(''components'', names)] \<noteq> []" and nn: "names \<noteq> []"
    by (simp_all add: unparsed_def)
  show ?thesis
    unfolding postProcessPositionals_def Let_def
    using ne nn
    by (simp add: assms(1) upgrade_flags_update u p a collected_def own_entries_simps not_index)
qed

lemma texts_of_values:
  "those (map (toString \<circ> coerced number) names) = Some (map (value_text number) names)"
  by (induction names) (simp_all add: coerced_def value_text_def)

lemma run_upgrade_plain:
  assumes "\<forall>a\<in>set (c # names). plain a" and "c # names = [] \<or> last (c # names) \<noteq> ''help''"
  shows "yargs_runCommand rt (cli v (e # s # c # names)) upgrade_command True =
     Handled (Some upgrade_command)
       [Log (if names = [] then ''Upgrading Refrescante package and all components...''
             else ''Upgrading components: '' @
                  join '', '' (map (value_text (numberToString rt)) names))]"
  using assms(1)
  by (simp add: runCommand_plain [OF assms] flags_inner help_alias command_parts
        parse_facts post_components requiredArguments_def demanded_inner unknownArguments_def
        own_entries_simps not_index inner_fields handler_defs texts_of_values collected_def
        Let_def)

lemma helpCmds_top: "y_helpOpt y = Some ''help'' \<Longrightarrow> helpCmds y top_flags = [''help'']"
  by (simp add: helpCmds_def help_alias)

lemma parseArgs_v:
  assumes "y_helpOpt y = Some ''help''" and "y_versionOpt y = Some (''version'', v)"
    and "flags_of y = top_flags" and "y_processArgs y = [''-v'']"
  shows "parseArgs number y =
     \<lparr>pa_argv = [(''v'', Bool True), (''version'', Bool True)], pa_positional = [],
      pa_doubleDash = [], pa_flags = top_flags, pa_help = False, pa_version = True\<rparr>"
  by (simp add: parseArgs_def assms Parser_v optSet_def)

lemma v_run:
  "yargs_dispatch rt (cli v [e, s, ''-v'']) = VersionShown v"
proof -
  have top: "parseArgs (numberToString rt) (cli v [e, s, ''-v'']) =
     \<lparr>pa_argv = [(''v'', Bool True), (''version'', Bool True)], pa_positional = [],
      pa_doubleDash = [], pa_flags = top_flags, pa_help = False, pa_version = True\<rparr>"
    by (rule parseArgs_v [where v = v])
       (simp_all add: cli_fields flags_cli process_argv_run passthrough_def)
  have inner: "parseArgs (numberToString rt)
       (applyBuilder (default_command v) False (cli v [e, s, ''-v''])) =
     \<lparr>pa_argv = [(''v'', Bool True), (''version'', Bool True)], pa_positional = [],
      pa_doubleDash = [], pa_flags = top_flags, pa_help = False, pa_version = True\<rparr>"
    by (rule parseArgs_v [where v = v])
       (simp_all add: inner_fields cli_fields flags_inner process_argv_run passthrough_def)
  show ?thesis
    by (simp add: dispatch_cli top yargs_runCommand_def inner versionText_def cli_fields Let_def)
qed

lemma hex_example: "value_text number ''0x10'' = ''16''"
  by (simp add: value_text_def looksLikeNumber_def hex_literal_def hex_digit_def toNumber_def
      code_def toDecimal.simps digit_def)

lemma run_result_eq:
  "''--version'' \<notin> set args \<Longrightarrow>
   run_result rt args =
     Some (yargs_dispatch rt (cli (pkgVersion rt) (''bun'' # ''./index.ts'' # args)))"
  by (simp add: run_result_def execPath_def CLI_PATH_def)

lemma version_in_passthrough:
  "''--version'' \<in> set (passthrough args) \<longleftrightarrow> ''--version'' \<in> set args"
  by (cases args) (auto simp: passthrough_def)

subsection \<open>Messages\<close>

lemma plain_no_version: "\<forall>a\<in>set args. plain a \<Longrightarrow> ''--version'' \<notin> set args"
  by (auto simp: plain_def)

lemma format_two:
  "format ''Not enough non-option arguments: got %s, need at least %s'' [a, b] =
   ''Not enough non-option arguments: got '' @ a @ '', need at least '' @ b"
  by simp

lemma format_unknown:
  "format ''Unknown argument: %s'' [a] = ''Unknown argument: '' @ a"
  "format ''Unknown arguments: %s'' [a] = ''Unknown arguments: '' @ a"
  by simp_all

lemma english_message:
  assumes "english rt"
  shows "message rt (MissingRequiredArgument got need) =
           ''Not enough non-option arguments: got '' @ toDecimal got @ '', need at least '' @
           toDecimal need"
    and "message rt (UnknownArgument [a]) = ''Unknown argument: '' @ shown a"
  using assms
  by (simp_all add: message_def translate_n_def english_def format_two format_unknown)

lemma decimals: "toDecimal 0 = ''0''" "toDecimal 1 = ''1''" "toDecimal (Suc 0) = ''1''"
  by (simp_all add: toDecimal.simps digit_def)

lemma missing_name_run:
  "runCommand rt [''add''] =
     fail rt (applyBuilder add_command True (cli (pkgVersion rt) [''bun'', ''./index.ts'', ''add'']))
       (message rt (MissingRequiredArgument 0 1)) started"
  "runCommand rt [''remove''] =
     fail rt (applyBuilder remove_command True (cli (pkgVersion rt) [''bun'', ''./index.ts'', ''remove'']))
       (message rt (MissingRequiredArgument 0 1)) started"
  "run_result rt [''add''] = Some (Failed (Some add_command) (MissingRequiredArgument 0 1))"
  "run_result rt [''remove''] = Some (Failed (Some remove_command) (MissingRequiredArgument 0 1))"
  by (simp_all add: run_defs passthrough_def run_result_eq dispatch_cli parseArgs_cli_plain
      plain_def run_named_plain usage_of_def)

lemma fail_outcome:
  "fail rt y msg started = \<lparr>stdout = [[]], stderr = showHelp rt y @ [msg], exitCode = 1\<rparr>"
  by (simp add: io_defs)


section \<open>The properties\<close>

text \<open>
  C1, as stated, at \<^verbatim>\<open>add\<close>: the run writes a line to standard output, the empty line of the
  failure report (\<^verbatim>\<open>console.error()\<close> without an argument, under bun).
\<close>

theorem add_without_name_counterexample:
  "stdout (runCommand example_runtime [''add'']) = [[]] \<and>
   stdout (runCommand example_runtime [''add'']) \<noteq> []"
  by (simp add: run_defs passthrough_def dispatch_cli parseArgs_cli_plain plain_def
      run_named_plain io_defs)

text \<open>
  C1, amended.  \<^verbatim>\<open>add\<close> or \<^verbatim>\<open>remove\<close> given without the component name: the process ends with
  code 1, no handler is called, standard output holds the empty line of the failure report
  and nothing else, and the last line on standard error is the complaint about too few
  arguments, in English \<^verbatim>\<open>Not enough non-option arguments: got 0, need at least 1\<close>.
\<close>

theorem add_remove_without_name:
  assumes "cmd = ''add'' \<or> cmd = ''remove''"
  shows "exitCode (runCommand rt [cmd]) = 1 \<and> stdout (runCommand rt [cmd]) = [[]] \<and>
         last (stderr (runCommand rt [cmd])) = message rt (MissingRequiredArgument 0 1) \<and>
         (english rt \<longrightarrow>
            message rt (MissingRequiredArgument 0 1) =
              ''Not enough non-option arguments: got 0, need at least 1'') \<and>
         failure rt [cmd] = Some (MissingRequiredArgument 0 1) \<and> \<not> handler_invoked rt [cmd]"
proof -
  have m: "english rt \<longrightarrow>
      message rt (MissingRequiredArgument 0 1) =
        ''Not enough non-option arguments: got 0, need at least 1''"
    by (simp add: english_message decimals)
  from assms show ?thesis
  proof
    assume "cmd = ''add''"
    with m show ?thesis
      by (simp add: missing_name_run fail_outcome failure_def failure_of_def
          handler_invoked_def)
  next
    assume "cmd = ''remove''"
    with m show ?thesis
      by (simp add: missing_name_run fail_outcome failure_def failure_of_def
          handler_invoked_def)
  qed
qed

theorem add_remove_without_name_witness:
  "exitCode (runCommand example_runtime [''remove'']) = 1 \<and>
   stdout (runCommand example_runtime [''remove'']) = [[]] \<and>
   english example_runtime \<and>
   last (stderr (runCommand example_runtime [''remove''])) =
     ''Not enough non-option arguments: got 0, need at least 1'' \<and>
   failure example_runtime [''remove''] = Some (MissingRequiredArgument 0 1) \<and>
   \<not> handler_invoked example_runtime [''remove'']"
proof -
  have e: "english example_runtime"
    by (simp add: english_def example_runtime_def id_def)
  from add_remove_without_name [of "''remove''" example_runtime] e show ?thesis
    by simp
qed

text \<open>
  C2.  The claim at the component name \<^verbatim>\<open>0x10\<close>: the line printed shows \<^verbatim>\<open>16\<close>, not the name
  that was given.  The handler joins the names it receives, as the claim says, and both the
  comment at line 145 and the cast at line 170 take them to be strings; but the builder at
  lines 163 to 168 declares \<^verbatim>\<open>components\<close> an array and not a string, as the builders of \<^verbatim>\<open>add\<close>
  and \<^verbatim>\<open>remove\<close> do for their name, so the parser hands over a number for an element that
  looks like one.
\<close>

theorem upgrade_hex_name_shown_as_number:
  "stdout (runCommand example_runtime [''upgrade'', ''0x10'']) = [''Upgrading components: 16''] \<and>
   stdout (runCommand example_runtime [''upgrade'', ''0x10'']) \<noteq>
     [''Upgrading components: '' @ join '', '' [''0x10'']]"
  by (simp add: run_defs version_in_passthrough dispatch_cli parseArgs_cli_plain
      run_upgrade_plain plain_def hex_example io_defs)

text \<open>
  C3.  With no argument at all the default command runs: one line with the version on
  standard output, exit code 0, and no failure; the requirement of \<^verbatim>\<open>demandCommand\<close> does not
  apply.
\<close>

theorem no_command_prints_version:
  "runCommand rt [] =
     \<lparr>stdout = [''Refrescante version: '' @ pkgVersion rt], stderr = [], exitCode = 0\<rparr> \<and>
   failure rt [] = None"
  by (simp add: no_args_run failure_def failure_of_def run_result_eq dispatch_cli
      parseArgs_cli_plain run_default_plain)

text \<open>
  C4.  \<^verbatim>\<open>--version\<close> and \<^verbatim>\<open>-v\<close> print the version string of the package metadata, and nothing
  else, on standard output and end with code 0.
\<close>

theorem version_flags_print_version:
  "runCommand rt [''--version''] = \<lparr>stdout = [pkgVersion rt], stderr = [], exitCode = 0\<rparr> \<and>
   runCommand rt [''-v''] = \<lparr>stdout = [pkgVersion rt], stderr = [], exitCode = 0\<rparr>"
  by (simp add: run_defs passthrough_def v_run io_defs)

text \<open>
  C10.  An argument vector that holds the token \<^verbatim>\<open>--version\<close>, at any place, is answered
  before the parser object is built: the version is printed, the code is 0, nothing is
  parsed and no handler runs.  Any other vector goes to the parser object; \<^verbatim>\<open>-v\<close> is such a
  vector, and it is the parser that answers it.
\<close>

theorem version_token_short_circuit:
  "(''--version'' \<in> set args \<longrightarrow>
      runCommand rt args = \<lparr>stdout = [pkgVersion rt], stderr = [], exitCode = 0\<rparr> \<and>
      run_result rt args = None \<and> \<not> handler_invoked rt args) \<and>
   (''--version'' \<notin> set args \<longrightarrow>
      runCommand rt args = yargs_parse rt (cli (pkgVersion rt) (execPath # CLI_PATH # args)) \<and>
      run_result rt args =
        Some (yargs_dispatch rt (cli (pkgVersion rt) (execPath # CLI_PATH # args)))) \<and>
   run_result rt [''-v''] = Some (VersionShown (pkgVersion rt))"
  by (simp add: runCommand_def index_ts_def run_result_def handler_invoked_def execPath_def
      CLI_PATH_def process_argv_run version_in_passthrough v_run io_defs)

theorem version_token_short_circuit_witness:
  "''--version'' \<in> set [''add'', ''button'', ''--version''] \<and>
   runCommand example_runtime [''add'', ''button'', ''--version''] =
     \<lparr>stdout = [''1.0.0''], stderr = [], exitCode = 0\<rparr> \<and>
   ''--version'' \<notin> set [''-v''] \<and>
   run_result example_runtime [''-v''] = Some (VersionShown ''1.0.0'')"
  using version_token_short_circuit [of "[''add'', ''button'', ''--version'']" example_runtime]
    version_token_short_circuit [of "[''-v'']" example_runtime]
  by (simp add: example_runtime_def)

end
